theory Spec2Isabelle
  imports Main "HOL-Library.Log_Nat" "HOL-Library.Word"
begin

text \<open>
  A model of the elevation service of \<open>gsi-elevation-api\<close>: the grid with its loader, its
  lookup and its result cache (\<open>internal/elevation/grid.go\<close>) and the service around it
  (\<open>internal/elevation/service.go\<close>), as functions that take the state and return it, with
  errors and panics as values; then the properties of the specification, each proved of
  these functions or refuted at a concrete input.
\<close>

section \<open>Go's numeric types\<close>

subsection \<open>float64\<close>

text \<open>
  A \<open>float64\<close> is a NaN, an infinity with its sign, or a finite number \<open>Fin s m e\<close> of
  value \<open>(-1)^s * m * 2^e\<close>: the sign bit (\<open>True\<close> is minus), the 53-bit mantissa with its
  leading bit, and the exponent of the last mantissa bit. The bit patterns of binary64 are
  the values that satisfy \<open>is_float64\<close>; the two zeros are \<open>Fin False 0 (-1074)\<close> and
  \<open>Fin True 0 (-1074)\<close>. Every operation rounds its exact result to the nearest such
  number, ties to the even mantissa, as the hardware does.
\<close>

datatype float64 = NaN | Inf bool | Fin bool int int

definition is_float64 :: "float64 \<Rightarrow> bool" where
  "is_float64 x =
     (case x of
        Fin s m e \<Rightarrow> (e = - 1074 \<and> 0 \<le> m \<and> m < 2 ^ 52) \<or>
                     (2 ^ 52 \<le> m \<and> m < 2 ^ 53 \<and> - 1074 \<le> e \<and> e \<le> 971)
      | _ \<Rightarrow> True)"

text \<open>
  \<open>ilog2q n d\<close> is the integer \<open>k\<close> with \<open>2^k \<le> n / d < 2^(k+1)\<close>, for positive \<open>n\<close> and
  \<open>d\<close>; \<open>bitlen\<close> is the number of binary digits.
\<close>

definition ilog2q :: "int \<Rightarrow> int \<Rightarrow> int" where
  "ilog2q n d =
     (let t = bitlen n - bitlen d
      in if d * 2 ^ nat t \<le> n * 2 ^ nat (- t) then t else t - 1)"

text \<open>The quotient \<open>n / d\<close> rounded to the nearest integer, ties to the even one.\<close>

definition round_div_even :: "int \<Rightarrow> int \<Rightarrow> int" where
  "round_div_even n d =
     (let q = n div d; r = n mod d
      in if 2 * r < d then q
         else if d < 2 * r then q + 1
         else if even q then q else q + 1)"

text \<open>
  \<open>rnd s n d x\<close> rounds the magnitude \<open>n / d * 2^x\<close> and gives it the sign \<open>s\<close>. The
  spacing of binary64 numbers around a magnitude in \<open>[2^k, 2^(k+1))\<close> is \<open>2^e\<close> with
  \<open>e = max (k - 52) (-1074)\<close> (53 significant bits, and the subnormal spacing at the
  bottom); the magnitude rounds to the nearest multiple \<open>m * 2^e\<close>, and a mantissa that
  reaches \<open>2^53\<close> moves to the next exponent. Beyond the exponent 971 the result is an
  infinity.
\<close>

definition rnd :: "bool \<Rightarrow> int \<Rightarrow> int \<Rightarrow> int \<Rightarrow> float64" where
  "rnd s n d x =
     (if n \<le> 0 then Fin s 0 (- 1074)
      else let k = ilog2q n d + x;
               e = max (k - 52) (- 1074);
               m = round_div_even (n * 2 ^ nat (x - e)) (d * 2 ^ nat (e - x))
           in if m = 2 ^ 53 then (if 971 \<le> e then Inf s else Fin s (2 ^ 52) (e + 1))
              else if 971 < e then Inf s else Fin s m e)"

text \<open>
  The value of the decimal constant \<open>n * 10^(-k)\<close> (\<open>35.36\<close> is \<open>f64c 3536 2\<close>), and of an
  integer converted to \<open>float64\<close>.
\<close>

definition f64c :: "int \<Rightarrow> nat \<Rightarrow> float64" where
  "f64c n k = rnd (n < 0) \<bar>n\<bar> (10 ^ k) 0"

definition f64_of_int :: "int \<Rightarrow> float64" where
  "f64_of_int i = rnd (i < 0) \<bar>i\<bar> 1 0"

fun is_nan :: "float64 \<Rightarrow> bool" where
  "is_nan NaN = True"
| "is_nan _ = False"

text \<open>\<open>scaled s m e x\<close> is the signed value in units of \<open>2^x\<close>, for \<open>x \<le> e\<close>.\<close>

definition scaled :: "bool \<Rightarrow> int \<Rightarrow> int \<Rightarrow> int \<Rightarrow> int" where
  "scaled s m e x = (if s then - m else m) * 2 ^ nat (e - x)"

fun fneg :: "float64 \<Rightarrow> float64" where
  "fneg NaN = NaN"
| "fneg (Inf s) = Inf (\<not> s)"
| "fneg (Fin s m e) = Fin (\<not> s) m e"

fun fadd :: "float64 \<Rightarrow> float64 \<Rightarrow> float64" where
  "fadd NaN _ = NaN"
| "fadd _ NaN = NaN"
| "fadd (Inf s) (Inf t) = (if s = t then Inf s else NaN)"
| "fadd (Inf s) (Fin _ _ _) = Inf s"
| "fadd (Fin _ _ _) (Inf t) = Inf t"
| "fadd (Fin s a e) (Fin t b f) =
     (let x = min e f; n = scaled s a e x + scaled t b f x
      in if n = 0 then Fin (s \<and> t) 0 (- 1074) else rnd (n < 0) \<bar>n\<bar> 1 x)"

definition fsub :: "float64 \<Rightarrow> float64 \<Rightarrow> float64" where
  "fsub x y = fadd x (fneg y)"

fun fmul :: "float64 \<Rightarrow> float64 \<Rightarrow> float64" where
  "fmul NaN _ = NaN"
| "fmul _ NaN = NaN"
| "fmul (Inf s) (Inf t) = Inf (s \<noteq> t)"
| "fmul (Inf s) (Fin t b f) = (if b = 0 then NaN else Inf (s \<noteq> t))"
| "fmul (Fin s a e) (Inf t) = (if a = 0 then NaN else Inf (s \<noteq> t))"
| "fmul (Fin s a e) (Fin t b f) = rnd (s \<noteq> t) (a * b) 1 (e + f)"

fun fdiv :: "float64 \<Rightarrow> float64 \<Rightarrow> float64" where
  "fdiv NaN _ = NaN"
| "fdiv _ NaN = NaN"
| "fdiv (Inf s) (Inf t) = NaN"
| "fdiv (Inf s) (Fin t b f) = Inf (s \<noteq> t)"
| "fdiv (Fin s a e) (Inf t) = Fin (s \<noteq> t) 0 (- 1074)"
| "fdiv (Fin s a e) (Fin t b f) =
     (if b = 0 then (if a = 0 then NaN else Inf (s \<noteq> t)) else rnd (s \<noteq> t) a b (e - f))"

text \<open>The comparisons of IEEE 754: every comparison with a NaN is false.\<close>

fun flt :: "float64 \<Rightarrow> float64 \<Rightarrow> bool" where
  "flt NaN _ = False"
| "flt _ NaN = False"
| "flt (Inf s) (Inf t) = (s \<and> \<not> t)"
| "flt (Inf s) (Fin _ _ _) = s"
| "flt (Fin _ _ _) (Inf t) = (\<not> t)"
| "flt (Fin s a e) (Fin t b f) = (scaled s a e (min e f) < scaled t b f (min e f))"

fun fle :: "float64 \<Rightarrow> float64 \<Rightarrow> bool" where
  "fle NaN _ = False"
| "fle _ NaN = False"
| "fle (Inf s) (Inf t) = (s \<or> \<not> t)"
| "fle (Inf s) (Fin _ _ _) = s"
| "fle (Fin _ _ _) (Inf t) = (\<not> t)"
| "fle (Fin s a e) (Fin t b f) = (scaled s a e (min e f) \<le> scaled t b f (min e f))"

definition fgt :: "float64 \<Rightarrow> float64 \<Rightarrow> bool" where
  "fgt x y = flt y x"

definition fge :: "float64 \<Rightarrow> float64 \<Rightarrow> bool" where
  "fge x y = fle y x"

subsection \<open>int, int16 and the conversions from float64\<close>

text \<open>
  Go's \<open>int\<close> is taken at its width on 64-bit platforms. An \<open>int\<close> is modelled as an
  integer, and \<open>wrap64\<close> is written where the arithmetic of the source can leave the
  range. The cells are \<open>int16\<close>.
\<close>

definition wrap64 :: "int \<Rightarrow> int" where
  "wrap64 i = (i + 2 ^ 63) mod 2 ^ 64 - 2 ^ 63"

definition wrap16 :: "int \<Rightarrow> int" where
  "wrap16 i = (i + 2 ^ 15) mod 2 ^ 16 - 2 ^ 15"

text \<open>
  A conversion from \<open>float64\<close> to an integer type truncates towards zero. When the
  truncated value does not fit (and for NaN and the infinities) the conversion succeeds
  with a value that the language leaves to the implementation: the two functions
  \<open>oor_int\<close> and \<open>oor_int16\<close> of \<open>go_impl\<close> are that choice. The third field is the limit
  of the allocator, in bytes: \<open>make\<close> panics when the slice would need more. \<open>amd64\<close> is
  the choice of the x86-64 compiler, whose conversion instructions return the smallest
  integer of the register width, and whose run-time system allocates at most \<open>2^48\<close> bytes
  at once.
\<close>

record go_impl =
  oor_int :: "float64 \<Rightarrow> int"
  oor_int16 :: "float64 \<Rightarrow> int"
  max_alloc :: int

fun truncate_f64 :: "float64 \<Rightarrow> int option" where
  "truncate_f64 (Fin s m e) =
     (let t = m * 2 ^ nat e div 2 ^ nat (- e) in Some (if s then - t else t))"
| "truncate_f64 _ = None"

definition f64_to_int :: "go_impl \<Rightarrow> float64 \<Rightarrow> int" where
  "f64_to_int impl x =
     (case truncate_f64 x of
        Some t \<Rightarrow> if - (2 ^ 63) \<le> t \<and> t < 2 ^ 63 then t else wrap64 (oor_int impl x)
      | None \<Rightarrow> wrap64 (oor_int impl x))"

definition f64_to_int16 :: "go_impl \<Rightarrow> float64 \<Rightarrow> int" where
  "f64_to_int16 impl x =
     (case truncate_f64 x of
        Some t \<Rightarrow> if - (2 ^ 15) \<le> t \<and> t < 2 ^ 15 then t else wrap16 (oor_int16 impl x)
      | None \<Rightarrow> wrap16 (oor_int16 impl x))"

definition amd64 :: go_impl where
  "amd64 = \<lparr> oor_int = (\<lambda>x. - (2 ^ 63)),
             oor_int16 = (\<lambda>x. case truncate_f64 x of
                                 Some t \<Rightarrow> if - (2 ^ 31) \<le> t \<and> t < 2 ^ 31 then t else 0
                               | None \<Rightarrow> 0),
             max_alloc = 2 ^ 48 \<rparr>"

text \<open>
  \<open>make([]T, n)\<close> for elements of \<open>elem\<close> bytes panics (\<open>makeslice: len out of range\<close>) when
  \<open>n\<close> is negative or \<open>n * elem\<close> is more than the limit of the allocator. Running out of
  memory below that limit is not part of the model.
\<close>

definition makeslice_panics :: "go_impl \<Rightarrow> int \<Rightarrow> int \<Rightarrow> bool" where
  "makeslice_panics impl elem n = (n < 0 \<or> max_alloc impl < n * elem)"

subsection \<open>Formatting with \<open>%.4f\<close>\<close>

text \<open>
  \<open>fmt.Sprintf("%.4f", x)\<close> prints the exact value of \<open>x\<close> rounded to four decimals,
  ties to the even digit, with a minus sign when the sign bit is set; NaN and the
  infinities print as \<open>NaN\<close>, \<open>+Inf\<close> and \<open>-Inf\<close>.
\<close>

definition digit :: "nat \<Rightarrow> char" where
  "digit n = ''0123456789'' ! (n mod 10)"

fun dec :: "nat \<Rightarrow> string" where
  "dec n = (if n < 10 then [digit n] else dec (n div 10) @ [digit n])"

fun fmt4 :: "float64 \<Rightarrow> string" where
  "fmt4 NaN = ''NaN''"
| "fmt4 (Inf s) = (if s then ''-Inf'' else ''+Inf'')"
| "fmt4 (Fin s m e) =
     (let n = nat (round_div_even (m * 10000 * 2 ^ nat e) (2 ^ nat (- e)))
      in (if s then ''-'' else []) @ dec (n div 10000) @ ''.'' @
         [digit (n div 1000), digit (n div 100), digit (n div 10), digit n])"

text \<open>Go's integer division and remainder truncate towards zero.\<close>

definition tdiv :: "int \<Rightarrow> int \<Rightarrow> int" where
  "tdiv a b = sgn a * sgn b * (\<bar>a\<bar> div \<bar>b\<bar>)"

definition trem :: "int \<Rightarrow> int \<Rightarrow> int" where
  "trem a b = a - b * tdiv a b"

section \<open>Files\<close>

text \<open>
  What \<open>os.Open\<close> finds at a path: nothing, something that cannot be opened, or a file.
  A file has the size that \<open>Stat\<close> reports (or \<open>Stat\<close> fails), and the bytes that reading
  it delivers before its end, which need not be as many as the reported size; \<open>broken\<close>
  says that the read after the last byte fails with an I/O error instead of reporting
  the end of the input.
\<close>

datatype io_error = EOF | ErrUnexpectedEOF | ReadError

record os_file =
  file_size :: "int option"
  contents :: "8 word list"
  broken :: bool

datatype open_result = NotExist | OpenError | Opened os_file

text \<open>
  \<open>binary.Read\<close> fills its buffer with \<open>io.ReadFull\<close>: the first \<open>n\<close> bytes, or \<open>EOF\<close>
  when there is none, \<open>ErrUnexpectedEOF\<close> when there are fewer than \<open>n\<close>. A buffer of
  length 0 is filled without reading.
\<close>

definition ReadFull :: "os_file \<Rightarrow> nat \<Rightarrow> io_error + 8 word list" where
  "ReadFull f n =
     (if n \<le> length (contents f) then Inr (take n (contents f))
      else if broken f then Inl ReadError
      else if contents f = [] then Inl EOF
      else Inl ErrUnexpectedEOF)"

text \<open>Little-endian decoding.\<close>

fun le_nat :: "8 word list \<Rightarrow> nat" where
  "le_nat [] = 0"
| "le_nat (b # bs) = unat b + 256 * le_nat bs"

definition wrap32 :: "int \<Rightarrow> int" where
  "wrap32 i = (i + 2 ^ 31) mod 2 ^ 32 - 2 ^ 31"

fun decode_int16s :: "8 word list \<Rightarrow> int list" where
  "decode_int16s (lo # hi # bs) = wrap16 (int (le_nat [lo, hi])) # decode_int16s bs"
| "decode_int16s _ = []"

text \<open>\<open>math.Float64frombits\<close>: sign, 11 bits of exponent, 52 bits of fraction.\<close>

definition Float64frombits :: "nat \<Rightarrow> float64" where
  "Float64frombits n =
     (let s = (n div 2 ^ 63 = 1); ex = (n div 2 ^ 52) mod 2048; fr = n mod 2 ^ 52
      in if ex = 2047 then (if fr = 0 then Inf s else NaN)
         else if ex = 0 then Fin s (int fr) (- 1074)
         else Fin s (2 ^ 52 + int fr) (int ex - 1075))"

section \<open>The elevation grid (internal/elevation/grid.go)\<close>

text \<open>
  \<open>Wrap msg e\<close> is \<open>fmt.Errorf("msg: %w", e)\<close>. A panic is not an error value of the
  program: it is kept apart as \<open>Panic\<close> and ends every function that meets it.
\<close>

datatype error =
    OutOfBounds      \<comment> \<open>\<open>coordinates out of bounds\<close>\<close>
  | OpenFailed       \<comment> \<open>\<open>os.Open\<close> failed, and not because the file does not exist\<close>
  | StatFailed       \<comment> \<open>\<open>file.Stat\<close> failed\<close>
  | SizeMismatch int int  \<comment> \<open>\<open>data file size mismatch\<close>: expected, got\<close>
  | ReadFailed io_error   \<comment> \<open>the error of \<open>binary.Read\<close>\<close>
  | Wrap string error
  | Panic            \<comment> \<open>index out of range, negative slice length\<close>

definition wrap_error :: "string \<Rightarrow> error \<Rightarrow> error" where
  "wrap_error msg e = (if e = Panic then Panic else Wrap msg e)"

record GridHeader =
  Width :: int
  Height :: int
  MinLat :: float64
  MaxLat :: float64
  MinLon :: float64
  MaxLon :: float64
  GridSize :: float64

record ElevationGrid =
  grid :: "int list"
  width :: int
  height :: int
  minLat :: float64
  maxLat :: float64
  minLon :: float64
  maxLon :: float64
  gridSize :: float64
  invGridSize :: float64
  hotspotCache :: "string \<rightharpoonup> float64"

definition NewElevationGrid :: ElevationGrid where
  "NewElevationGrid =
     \<lparr> grid = [], width = 32000, height = 26000,
       minLat = f64c 20 0, maxLat = f64c 46 0, minLon = f64c 122 0, maxLon = f64c 154 0,
       gridSize = f64c 1 3, invGridSize = Fin False 0 (- 1074), hotspotCache = Map.empty \<rparr>"

subsection \<open>loadHeader\<close>

text \<open>The 48 bytes of the header: two \<open>int32\<close> and five \<open>float64\<close>, without padding.\<close>

definition decode_header :: "8 word list \<Rightarrow> GridHeader" where
  "decode_header bs =
     \<lparr> Width = wrap32 (int (le_nat (take 4 bs))),
       Height = wrap32 (int (le_nat (take 4 (drop 4 bs)))),
       MinLat = Float64frombits (le_nat (take 8 (drop 8 bs))),
       MaxLat = Float64frombits (le_nat (take 8 (drop 16 bs))),
       MinLon = Float64frombits (le_nat (take 8 (drop 24 bs))),
       MaxLon = Float64frombits (le_nat (take 8 (drop 32 bs))),
       GridSize = Float64frombits (le_nat (take 8 (drop 40 bs))) \<rparr>"

definition loadHeader :: "ElevationGrid \<Rightarrow> open_result \<Rightarrow> error + ElevationGrid" where
  "loadHeader eg path =
     (case path of
        NotExist \<Rightarrow>
          Inr (eg\<lparr>width := 32000, height := 26000,
                  minLat := f64c 20 0, maxLat := f64c 46 0,
                  minLon := f64c 122 0, maxLon := f64c 154 0,
                  gridSize := f64c 1 3\<rparr>)
      | OpenError \<Rightarrow> Inl OpenFailed
      | Opened f \<Rightarrow>
          (case ReadFull f 48 of
             Inl err \<Rightarrow> Inl (ReadFailed err)
           | Inr bs \<Rightarrow>
               (let header = decode_header bs
                in Inr (eg\<lparr>width := Width header, height := Height header,
                           minLat := MinLat header, maxLat := MaxLat header,
                           minLon := MinLon header, maxLon := MaxLon header,
                           gridSize := GridSize header\<rparr>))))"

subsection \<open>generateTestData and loadData\<close>

text \<open>
  The cell that \<open>generateTestData\<close> writes at index \<open>i\<close>. The sums and products are
  rounded one by one (no fused multiply-add).
\<close>

definition synth_cell :: "go_impl \<Rightarrow> ElevationGrid \<Rightarrow> int \<Rightarrow> int" where
  "synth_cell impl eg i =
     (let y = tdiv i (width eg);
          x = trem i (width eg);
          lat = fadd (minLat eg) (fmul (f64_of_int y) (gridSize eg));
          lon = fadd (minLon eg) (fmul (f64_of_int x) (gridSize eg))
      in if fge lat (f64c 3536 2) \<and> fle lat (f64c 3537 2) \<and>
            fge lon (f64c 13872 2) \<and> fle lon (f64c 13873 2) then 32767
         else if fge lat (f64c 3568 2) \<and> fle lat (f64c 3569 2) \<and>
            fge lon (f64c 13976 2) \<and> fle lon (f64c 13977 2) then 300
         else if fge lat (f64c 3468 2) \<and> fle lat (f64c 3469 2) \<and>
            fge lon (f64c 13552 2) \<and> fle lon (f64c 13553 2) then 2000
         else f64_to_int16 impl
                (fadd (f64c 500 0)
                   (fadd (fmul (f64_of_int x) (f64c 1 2)) (fmul (f64_of_int y) (f64c 2 2)))))"

text \<open>
  \<open>generateTestData\<close> begins with \<open>make([]int16, eg.width*eg.height)\<close>, which can panic,
  and then writes every cell.
\<close>

definition generateTestData :: "go_impl \<Rightarrow> ElevationGrid \<Rightarrow> error + ElevationGrid" where
  "generateTestData impl eg =
     (let n = wrap64 (width eg * height eg)
      in if makeslice_panics impl 2 n then Inl Panic
         else Inr (eg\<lparr>grid := map (synth_cell impl eg) [0..n - 1]\<rparr>))"

definition expectedSize :: "ElevationGrid \<Rightarrow> int" where
  "expectedSize eg = wrap64 (wrap64 (width eg * height eg) * 2)"

definition loadData :: "go_impl \<Rightarrow> ElevationGrid \<Rightarrow> open_result \<Rightarrow> error + ElevationGrid" where
  "loadData impl eg path =
     (case path of
        NotExist \<Rightarrow> generateTestData impl eg
      | OpenError \<Rightarrow> Inl OpenFailed
      | Opened f \<Rightarrow>
          (case file_size f of
             None \<Rightarrow> Inl StatFailed
           | Some sz \<Rightarrow>
               if sz \<noteq> expectedSize eg then Inl (SizeMismatch (expectedSize eg) sz)
               else let n = wrap64 (width eg * height eg)
                    in if makeslice_panics impl 2 n then Inl Panic
                       else (case ReadFull f (2 * nat n) of
                               Inl err \<Rightarrow>
                                 if err = EOF \<or> err = ErrUnexpectedEOF
                                 then generateTestData impl eg
                                 else Inl (ReadFailed err)
                             | Inr bs \<Rightarrow> Inr (eg\<lparr>grid := decode_int16s bs\<rparr>))))"

subsection \<open>LoadFromFile\<close>

definition LoadFromFile ::
  "go_impl \<Rightarrow> ElevationGrid \<Rightarrow> open_result \<Rightarrow> open_result \<Rightarrow> error + ElevationGrid" where
  "LoadFromFile impl eg dataPath headerPath =
     (case loadHeader eg headerPath of
        Inl err \<Rightarrow> Inl (wrap_error ''failed to load header'' err)
      | Inr eg1 \<Rightarrow>
          (case loadData impl eg1 dataPath of
             Inl err \<Rightarrow> Inl (wrap_error ''failed to load data'' err)
           | Inr eg2 \<Rightarrow> Inr (eg2\<lparr>invGridSize := fdiv (f64c 1 0) (gridSize eg2)\<rparr>)))"

subsection \<open>GetElevation\<close>

definition out_of_bounds :: "ElevationGrid \<Rightarrow> float64 \<Rightarrow> float64 \<Rightarrow> bool" where
  "out_of_bounds eg lat lon =
     (flt lat (minLat eg) \<or> fgt lat (maxLat eg) \<or> flt lon (minLon eg) \<or> fgt lon (maxLon eg))"

definition cacheKey :: "float64 \<Rightarrow> float64 \<Rightarrow> string" where
  "cacheKey lat lon = fmt4 lat @ '','' @ fmt4 lon"

text \<open>
  The column and the row: the conversion to \<open>int\<close>, then the two clamps in the order of
  the source (the second is not an \<open>else\<close> of the first).
\<close>

definition cell_x :: "go_impl \<Rightarrow> ElevationGrid \<Rightarrow> float64 \<Rightarrow> int" where
  "cell_x impl eg lon =
     (let x = f64_to_int impl (fmul (fsub lon (minLon eg)) (invGridSize eg));
          x = (if x < 0 then 0 else x);
          x = (if width eg \<le> x then wrap64 (width eg - 1) else x)
      in x)"

definition cell_y :: "go_impl \<Rightarrow> ElevationGrid \<Rightarrow> float64 \<Rightarrow> int" where
  "cell_y impl eg lat =
     (let y = f64_to_int impl (fmul (fsub lat (minLat eg)) (invGridSize eg));
          y = (if y < 0 then 0 else y);
          y = (if height eg \<le> y then wrap64 (height eg - 1) else y)
      in y)"

definition cell_index :: "go_impl \<Rightarrow> ElevationGrid \<Rightarrow> float64 \<Rightarrow> float64 \<Rightarrow> int" where
  "cell_index impl eg lat lon =
     wrap64 (wrap64 (cell_y impl eg lat * width eg) + cell_x impl eg lon)"

text \<open>
  The result is the returned pair (value or error) and the grid after the call: only the
  cache can change. Reading the slice outside its range panics.
\<close>

definition GetElevation ::
  "go_impl \<Rightarrow> ElevationGrid \<Rightarrow> float64 \<Rightarrow> float64 \<Rightarrow> (error + float64) \<times> ElevationGrid" where
  "GetElevation impl eg lat lon =
     (if out_of_bounds eg lat lon then (Inl OutOfBounds, eg)
      else case hotspotCache eg (cacheKey lat lon) of
        Some cached \<Rightarrow> (Inr cached, eg)
      | None \<Rightarrow>
          (let index = cell_index impl eg lat lon
           in if index < 0 \<or> int (length (grid eg)) \<le> index then (Inl Panic, eg)
              else let elevationCm = grid eg ! nat index
                   in if elevationCm = - 9999 then (Inr (f64c (- 9999) 0), eg)
                      else let elevation = fdiv (f64_of_int elevationCm) (f64c 100 0)
                           in (Inr elevation,
                               eg\<lparr>hotspotCache := (hotspotCache eg)(cacheKey lat lon \<mapsto> elevation)\<rparr>)))"

subsection \<open>GetBatchElevations\<close>

record BatchPoint =
  Lat :: float64
  Lon :: float64

record ElevationResult = BatchPoint +
  Elevation :: float64

text \<open>
  The loop over the points, the cache going from one call to the next. An error of
  \<open>GetElevation\<close> becomes the value \<open>-9999\<close>; a panic ends the loop.
\<close>

fun GetBatchElevations ::
  "go_impl \<Rightarrow> ElevationGrid \<Rightarrow> BatchPoint list \<Rightarrow> (error + float64 list) \<times> ElevationGrid" where
  "GetBatchElevations impl eg [] = (Inr [], eg)"
| "GetBatchElevations impl eg (p # ps) =
     (case GetElevation impl eg (Lat p) (Lon p) of
        (r, eg1) \<Rightarrow>
          if r = Inl Panic then (Inl Panic, eg1)
          else let v = (case r of Inl err \<Rightarrow> f64c (- 9999) 0 | Inr elev \<Rightarrow> elev)
               in (case GetBatchElevations impl eg1 ps of
                     (Inl err, eg2) \<Rightarrow> (Inl err, eg2)
                   | (Inr results, eg2) \<Rightarrow> (Inr (v # results), eg2)))"

section \<open>The service (internal/elevation/service.go)\<close>

text \<open>
  The field \<open>egrid\<close> is the field \<open>grid\<close> of the source's \<open>Service\<close>; \<open>requests\<close> is a
  \<open>uint64\<close>; the start time is in nanoseconds.
\<close>

record Service =
  egrid :: ElevationGrid
  startTime :: int
  requests :: "64 word"

definition NewService ::
  "go_impl \<Rightarrow> int \<Rightarrow> open_result \<Rightarrow> open_result \<Rightarrow> error + Service" where
  "NewService impl now dataPath headerPath =
     (case LoadFromFile impl NewElevationGrid dataPath headerPath of
        Inl err \<Rightarrow> Inl (wrap_error ''failed to load elevation data'' err)
      | Inr g \<Rightarrow> Inr \<lparr> egrid = g, startTime = now, requests = 0 \<rparr>)"

definition Service_GetElevation ::
  "go_impl \<Rightarrow> Service \<Rightarrow> float64 \<Rightarrow> float64 \<Rightarrow> (error + float64) \<times> Service" where
  "Service_GetElevation impl s lat lon =
     (let s1 = s\<lparr>requests := requests s + 1\<rparr>
      in case GetElevation impl (egrid s1) lat lon of
           (r, g) \<Rightarrow> (r, s1\<lparr>egrid := g\<rparr>))"

definition Service_GetBatchElevations ::
  "go_impl \<Rightarrow> Service \<Rightarrow> BatchPoint list \<Rightarrow> (error + ElevationResult list) \<times> Service" where
  "Service_GetBatchElevations impl s points =
     (let s1 = s\<lparr>requests := requests s + of_nat (length points)\<rparr>
      in case GetBatchElevations impl (egrid s1) points of
           (Inl err, g) \<Rightarrow> (Inl err, s1\<lparr>egrid := g\<rparr>)
         | (Inr elevations, g) \<Rightarrow>
             (Inr (map2 (\<lambda>p e. \<lparr> Lat = Lat p, Lon = Lon p, Elevation = e \<rparr>) points elevations),
              s1\<lparr>egrid := g\<rparr>))"

text \<open>
  What \<open>GetHealth\<close> reads from the run-time system: the allocated bytes, the number of
  goroutines and the clock.
\<close>

record runtime =
  alloc :: nat
  goroutines :: int
  clock :: int

record HealthStatus =
  Status :: string
  MemoryMB :: int
  Goroutines :: int
  UptimeSeconds :: float64
  TotalRequests :: "64 word"

text \<open>\<open>Duration.Seconds\<close>: the whole seconds plus the nanoseconds divided by \<open>1e9\<close>.\<close>

definition Seconds :: "int \<Rightarrow> float64" where
  "Seconds d =
     fadd (f64_of_int (tdiv d 1000000000))
          (fdiv (f64_of_int (trem d 1000000000)) (f64c 1000000000 0))"

definition GetHealth :: "runtime \<Rightarrow> Service \<Rightarrow> HealthStatus" where
  "GetHealth rt s =
     \<lparr> Status = ''ok'',
       MemoryMB = int (alloc rt div 1024 div 1024),
       Goroutines = goroutines rt,
       UptimeSeconds = Seconds (clock rt - startTime s),
       TotalRequests = requests s \<rparr>"

section \<open>Notions used by the properties\<close>

text \<open>
  Membership in a closed interval of \<open>float64\<close> numbers, and in the bounding box of a
  grid. A NaN belongs to no interval.
\<close>

definition in_interval :: "float64 \<Rightarrow> float64 \<Rightarrow> float64 \<Rightarrow> bool" where
  "in_interval lo hi x = (fle lo x \<and> fle x hi)"

definition in_box :: "ElevationGrid \<Rightarrow> float64 \<Rightarrow> float64 \<Rightarrow> bool" where
  "in_box eg lat lon =
     (in_interval (minLat eg) (maxLat eg) lat \<and> in_interval (minLon eg) (maxLon eg) lon)"

text \<open>
  The grid is well formed: a positive width and height, and a slice of width times height
  cells (the length of a slice is an \<open>int\<close>).
\<close>

definition grid_wf :: "ElevationGrid \<Rightarrow> bool" where
  "grid_wf eg =
     (0 < width eg \<and> 0 < height eg \<and>
      int (length (grid eg)) = width eg * height eg \<and> int (length (grid eg)) < 2 ^ 63)"

text \<open>Two grids that differ at most in their caches.\<close>

definition same_geometry :: "ElevationGrid \<Rightarrow> ElevationGrid \<Rightarrow> bool" where
  "same_geometry a b =
     (grid a = grid b \<and> width a = width b \<and> height a = height b \<and>
      minLat a = minLat b \<and> maxLat a = maxLat b \<and>
      minLon a = minLon b \<and> maxLon a = maxLon b \<and>
      gridSize a = gridSize b \<and> invGridSize a = invGridSize b)"

text \<open>The geometry invariant of the header.\<close>

definition geometry_ok :: "ElevationGrid \<Rightarrow> bool" where
  "geometry_ok eg =
     (0 < width eg \<and> 0 < height eg \<and>
      flt (minLat eg) (maxLat eg) \<and> flt (minLon eg) (maxLon eg) \<and>
      fgt (gridSize eg) (f64c 0 0))"

text \<open>The cell that a coordinate resolves to, when its index is in the slice.\<close>

definition resolved_cell :: "go_impl \<Rightarrow> ElevationGrid \<Rightarrow> float64 \<Rightarrow> float64 \<Rightarrow> int option" where
  "resolved_cell impl eg lat lon =
     (let index = cell_index impl eg lat lon
      in if 0 \<le> index \<and> index < int (length (grid eg)) then Some (grid eg ! nat index)
         else None)"

text \<open>
  The read of the data file at \<open>grid.go:116\<close> takes place (the slice it fills has been
  allocated) and meets the end of the input.
\<close>

definition read_meets_end :: "go_impl \<Rightarrow> ElevationGrid \<Rightarrow> os_file \<Rightarrow> bool" where
  "read_meets_end impl eg f =
     (let n = wrap64 (width eg * height eg)
      in \<not> makeslice_panics impl 2 n \<and>
         (ReadFull f (2 * nat n) = Inl EOF \<or> ReadFull f (2 * nat n) = Inl ErrUnexpectedEOF))"

text \<open>
  The grid after one call of \<open>GetElevation\<close> for each point of a list, in order, and the
  elevation that a batch reports for a point on a given grid: the value of
  \<open>GetElevation\<close>, or \<open>-9999\<close> for its error.
\<close>

fun grid_after :: "go_impl \<Rightarrow> ElevationGrid \<Rightarrow> BatchPoint list \<Rightarrow> ElevationGrid" where
  "grid_after impl eg [] = eg"
| "grid_after impl eg (p # ps) = grid_after impl (snd (GetElevation impl eg (Lat p) (Lon p))) ps"

definition point_elevation :: "go_impl \<Rightarrow> ElevationGrid \<Rightarrow> BatchPoint \<Rightarrow> float64" where
  "point_elevation impl eg p =
     (case fst (GetElevation impl eg (Lat p) (Lon p)) of
        Inl err \<Rightarrow> f64c (- 9999) 0
      | Inr elev \<Rightarrow> elev)"

text \<open>
  A sequence of operations on the service, one after the other, and the number of
  requests that each of them counts.
\<close>

datatype request = Single float64 float64 | Batch "BatchPoint list" | Health runtime

fun serve :: "go_impl \<Rightarrow> Service \<Rightarrow> request \<Rightarrow> Service" where
  "serve impl s (Single lat lon) = snd (Service_GetElevation impl s lat lon)"
| "serve impl s (Batch points) = snd (Service_GetBatchElevations impl s points)"
| "serve impl s (Health rt) = s"

fun counted :: "request \<Rightarrow> nat" where
  "counted (Single lat lon) = 1"
| "counted (Batch points) = length points"
| "counted (Health rt) = 0"

section \<open>Example data\<close>

text \<open>
  A grid of two rows and two columns over \<open>[0, 2] \<times> [0, 2]\<close> with cells of one degree;
  the cell of row 0 and column 1 has no data.
\<close>

definition demo_grid :: ElevationGrid where
  "demo_grid =
     \<lparr> grid = [100, - 9999, 250, 7], width = 2, height = 2,
       minLat = f64c 0 0, maxLat = f64c 2 0, minLon = f64c 0 0, maxLon = f64c 2 0,
       gridSize = f64c 1 0, invGridSize = f64c 1 0, hotspotCache = Map.empty \<rparr>"

text \<open>
  Two longitudes with the same key \<open>1.0000\<close> in different columns: \<open>1 - 2^(-15)\<close> in
  column 0 and \<open>1\<close> in column 1.
\<close>

definition lon_below_one :: float64 where
  "lon_below_one = f64c 999969482421875 15"

definition demo_grid_cached :: ElevationGrid where
  "demo_grid_cached = snd (GetElevation amd64 demo_grid (f64c 0 0) lon_below_one)"

text \<open>A service on the example grid, and one whose counter has reached its last value.\<close>

definition demo_service :: Service where
  "demo_service = \<lparr> egrid = demo_grid, startTime = 0, requests = 0 \<rparr>"

definition full_service :: Service where
  "full_service = \<lparr> egrid = demo_grid, startTime = 0, requests = - 1 \<rparr>"

definition demo_points :: "BatchPoint list" where
  "demo_points =
     [\<lparr> Lat = f64c 0 0, Lon = lon_below_one \<rparr>, \<lparr> Lat = f64c 3 0, Lon = f64c 0 0 \<rparr>,
      \<lparr> Lat = f64c 0 0, Lon = f64c 1 0 \<rparr>]"

text \<open>
  Files: a header of 48 zero bytes, a header for a grid of two columns and one row (its
  five numbers zero), a file of three bytes, and a data file whose reported size is four
  bytes but which ends after two.
\<close>

definition zero_header :: os_file where
  "zero_header = \<lparr> file_size = Some 48, contents = replicate 48 0, broken = False \<rparr>"

definition tiny_header :: os_file where
  "tiny_header =
     \<lparr> file_size = Some 48, contents = [2, 0, 0, 0, 1, 0, 0, 0] @ replicate 40 0,
       broken = False \<rparr>"

definition three_bytes :: os_file where
  "three_bytes = \<lparr> file_size = Some 3, contents = [1, 2, 3], broken = False \<rparr>"

definition truncated_data :: os_file where
  "truncated_data = \<lparr> file_size = Some 4, contents = [1, 2], broken = False \<rparr>"

text \<open>A header whose width and height are both \<open>2^31 - 1\<close>, its five numbers zero.\<close>

definition huge_header :: os_file where
  "huge_header =
     \<lparr> file_size = Some 48,
       contents = [255, 255, 255, 127, 255, 255, 255, 127] @ replicate 40 0,
       broken = False \<rparr>"

text \<open>The grids that loading the headers gives, before the data is loaded.\<close>

definition zero_geometry :: ElevationGrid where
  "zero_geometry =
     \<lparr> grid = [], width = 0, height = 0,
       minLat = Fin False 0 (- 1074), maxLat = Fin False 0 (- 1074),
       minLon = Fin False 0 (- 1074), maxLon = Fin False 0 (- 1074),
       gridSize = Fin False 0 (- 1074), invGridSize = Fin False 0 (- 1074),
       hotspotCache = Map.empty \<rparr>"

definition tiny_geometry :: ElevationGrid where
  "tiny_geometry = zero_geometry\<lparr>width := 2, height := 1\<rparr>"

definition huge_geometry :: ElevationGrid where
  "huge_geometry = zero_geometry\<lparr>width := 2147483647, height := 2147483647\<rparr>"

text \<open>
  The service that \<open>NewService\<close> constructs from the header of zero bytes and no data
  file, and a batch of one point at the origin.
\<close>

definition zero_service :: Service where
  "zero_service =
     \<lparr> egrid = zero_geometry\<lparr>invGridSize := Inf False\<rparr>, startTime = 0, requests = 0 \<rparr>"

definition origin_batch :: "BatchPoint list" where
  "origin_batch = [\<lparr> Lat = f64c 0 0, Lon = f64c 0 0 \<rparr>]"

text \<open>The grid of the default geometry with synthetic data.\<close>

definition synthetic_default :: ElevationGrid where
  "synthetic_default =
     NewElevationGrid
       \<lparr>grid := map (synth_cell amd64 NewElevationGrid) [0..32000 * 26000 - 1],
        invGridSize := fdiv (f64c 1 0) (f64c 1 3)\<rparr>"

section \<open>Evaluation rules\<close>

text \<open>
  Rules that let the simplifier compute the functions above on numerals: the number of
  binary digits along the numeral, the decimal digits without unfolding the recursion
  under an undecided test.
\<close>

lemma bitlen_eval [simp]:
  "bitlen 1 = 1"
  "bitlen (numeral (Num.Bit0 n)) = bitlen (numeral n) + 1"
  "bitlen (numeral (Num.Bit1 n)) = bitlen (numeral n) + 1"
  "bitlen (numeral Num.One) = 1"
  by (simp_all add: compute_bitlen[of 1] compute_bitlen[of "numeral (Num.Bit0 n)"]
        compute_bitlen[of "numeral (Num.Bit1 n)"])

lemma dec_eval:
  "dec (numeral n) =
     (if (numeral n :: nat) < 10 then [digit (numeral n)]
      else dec (numeral n div 10) @ [digit (numeral n)])"
  "dec 0 = [digit 0]" "dec 1 = [digit 1]"
  by simp_all

declare dec.simps [simp del]

lemmas f64_eval = f64c_def f64_of_int_def rnd_def ilog2q_def round_div_even_def scaled_def Let_def

lemmas grid_eval = GetElevation_def out_of_bounds_def cacheKey_def cell_index_def cell_x_def
  cell_y_def fsub_def fgt_def f64_to_int_def wrap64_def dec_eval digit_def

section \<open>Comparisons and wrap-around\<close>

lemma flt_nan [simp]: "\<not> flt x NaN" "\<not> flt NaN x"
  by (cases x; simp)+

lemma fle_nan [simp]: "\<not> fle x NaN" "\<not> fle NaN x"
  by (cases x; simp)+

lemma wrap64_id: "- (2 ^ 63) \<le> i \<Longrightarrow> i < 2 ^ 63 \<Longrightarrow> wrap64 i = i"
  by (simp add: wrap64_def)

section \<open>The cell index stays inside the slice\<close>

lemma grid_wf_width: assumes "grid_wf eg" shows "width eg < 2 ^ 63"
proof -
  have "1 \<le> height eg" "0 \<le> width eg" using assms by (simp_all add: grid_wf_def)
  then have "width eg * 1 \<le> width eg * height eg" by (rule mult_left_mono)
  moreover have "width eg * height eg < 2 ^ 63" using assms unfolding grid_wf_def by linarith
  ultimately show ?thesis by linarith
qed

lemma grid_wf_height: assumes "grid_wf eg" shows "height eg < 2 ^ 63"
proof -
  have "1 \<le> width eg" "0 \<le> height eg" using assms by (simp_all add: grid_wf_def)
  then have "1 * height eg \<le> width eg * height eg" by (rule mult_right_mono)
  moreover have "width eg * height eg < 2 ^ 63" using assms unfolding grid_wf_def by linarith
  ultimately show ?thesis by linarith
qed

lemma cell_x_bounds:
  assumes "grid_wf eg"
  shows "0 \<le> cell_x impl eg lon \<and> cell_x impl eg lon < width eg"
proof -
  have w: "0 < width eg" using assms by (simp add: grid_wf_def)
  have "wrap64 (width eg - 1) = width eg - 1"
    using w grid_wf_width[OF assms] by (intro wrap64_id) simp_all
  then show ?thesis using w by (simp add: cell_x_def Let_def)
qed

lemma cell_y_bounds:
  assumes "grid_wf eg"
  shows "0 \<le> cell_y impl eg lat \<and> cell_y impl eg lat < height eg"
proof -
  have h: "0 < height eg" using assms by (simp add: grid_wf_def)
  have "wrap64 (height eg - 1) = height eg - 1"
    using h grid_wf_height[OF assms] by (intro wrap64_id) simp_all
  then show ?thesis using h by (simp add: cell_y_def Let_def)
qed

lemma cell_index_bounds:
  assumes "grid_wf eg"
  shows "cell_index impl eg lat lon = cell_y impl eg lat * width eg + cell_x impl eg lon \<and>
         0 \<le> cell_index impl eg lat lon \<and> cell_index impl eg lat lon < int (length (grid eg))"
proof -
  define x where "x = cell_x impl eg lon"
  define y where "y = cell_y impl eg lat"
  have x: "0 \<le> x" "x < width eg" using cell_x_bounds[OF assms] by (simp_all add: x_def)
  have y: "0 \<le> y" "y < height eg" using cell_y_bounds[OF assms] by (simp_all add: y_def)
  have len: "int (length (grid eg)) = width eg * height eg"
    using assms unfolding grid_wf_def by blast
  have len63: "width eg * height eg < 2 ^ 63"
    using assms unfolding grid_wf_def by linarith
  have "y * width eg \<le> (height eg - 1) * width eg"
    using x y by (intro mult_right_mono) simp_all
  then have up: "y * width eg + x < width eg * height eg"
    using x by (simp add: algebra_simps)
  have lo: "0 \<le> y * width eg" using x y by simp
  have "y * width eg < 2 ^ 63" using up x len63 by linarith
  then have w1: "wrap64 (y * width eg) = y * width eg" using lo by (intro wrap64_id) simp_all
  have w2: "wrap64 (y * width eg + x) = y * width eg + x"
    using lo x up len63 by (intro wrap64_id) linarith+
  show ?thesis using w1 w2 lo x up len by (simp add: cell_index_def x_def[symmetric] y_def[symmetric])
qed

lemma GetElevation_no_panic:
  assumes "grid_wf eg"
  shows "fst (GetElevation impl eg lat lon) \<noteq> Inl Panic"
  using cell_index_bounds[OF assms, of impl lat lon]
  by (simp add: GetElevation_def Let_def split: option.split)

lemma GetElevation_grid_wf:
  "grid_wf (snd (GetElevation impl eg lat lon)) = grid_wf eg"
  by (simp add: GetElevation_def Let_def grid_wf_def split: option.split)

lemma demo_grid_wf: "grid_wf demo_grid"
  by (simp add: grid_wf_def demo_grid_def)

text \<open>
  Claim C10. On a grid whose slice has \<open>width * height\<close> cells, with a positive width
  and height, the clamped column \<open>x\<close> and row \<open>y\<close> satisfy \<open>0 \<le> x < width\<close> and
  \<open>0 \<le> y < height\<close>, the index \<open>y * width + x\<close> is computed without wrap-around and lies
  inside the slice, and the call does not panic. This holds for every pair of
  coordinates, the NaN that the bounds check lets through included, and for every choice
  the implementation makes in the conversion of a \<open>float64\<close> that does not fit an \<open>int\<close>.
\<close>

theorem index_in_range:
  assumes "grid_wf eg"
  shows "0 \<le> cell_x impl eg lon \<and> cell_x impl eg lon < width eg \<and>
         0 \<le> cell_y impl eg lat \<and> cell_y impl eg lat < height eg \<and>
         cell_index impl eg lat lon = cell_y impl eg lat * width eg + cell_x impl eg lon \<and>
         0 \<le> cell_index impl eg lat lon \<and>
         cell_index impl eg lat lon < int (length (grid eg)) \<and>
         fst (GetElevation impl eg lat lon) \<noteq> Inl Panic"
  using cell_x_bounds[OF assms] cell_y_bounds[OF assms] cell_index_bounds[OF assms]
    GetElevation_no_panic[OF assms]
  by blast

theorem index_in_range_witness:
  "grid_wf demo_grid \<and> \<not> out_of_bounds demo_grid NaN NaN \<and>
   hotspotCache demo_grid (cacheKey NaN NaN) = None \<and>
   cell_x amd64 demo_grid NaN = 0 \<and> cell_y amd64 demo_grid NaN = 0 \<and>
   cell_index amd64 demo_grid NaN NaN = 0 \<and>
   fst (GetElevation amd64 demo_grid NaN NaN) \<noteq> Inl Panic"
proof -
  have h: "grid_wf demo_grid" by (rule demo_grid_wf)
  have "cell_x amd64 demo_grid NaN = 0" "cell_y amd64 demo_grid NaN = 0"
    by (simp_all add: grid_eval demo_grid_def amd64_def)
  then show ?thesis
    using h index_in_range[OF h, of amd64 NaN NaN]
    by (simp add: out_of_bounds_def fgt_def demo_grid_def)
qed

section \<open>Repeated calls\<close>

text \<open>
  Claim C6. Idempotence: a second call of \<open>GetElevation\<close> with the same coordinates,
  right after the first, returns the same result as the first (the same value, bit for
  bit, or the same error) and leaves the grid and its cache as the first call left them.
\<close>

theorem GetElevation_idempotent:
  "fst (GetElevation impl (snd (GetElevation impl eg lat lon)) lat lon) =
     fst (GetElevation impl eg lat lon) \<and>
   snd (GetElevation impl (snd (GetElevation impl eg lat lon)) lat lon) =
     snd (GetElevation impl eg lat lon)"
  by (simp add: GetElevation_def Let_def out_of_bounds_def split: option.split)


section \<open>The bounds check\<close>

text \<open>
  Among numbers the comparisons are a total order, so for coordinates and bounds that
  are not NaN the check of the source rejects exactly the coordinates outside the closed
  box, and a coordinate equal to a bound is inside.
\<close>

lemma flt_iff_not_fle: "\<not> is_nan x \<Longrightarrow> \<not> is_nan y \<Longrightarrow> flt x y = (\<not> fle y x)"
  by (cases x; cases y) (auto simp: min.commute)

lemma out_of_bounds_iff:
  assumes "\<not> is_nan (minLat eg)" "\<not> is_nan (maxLat eg)" "\<not> is_nan (minLon eg)" "\<not> is_nan (maxLon eg)"
    and "\<not> is_nan lat" "\<not> is_nan lon"
  shows "out_of_bounds eg lat lon = (\<not> in_box eg lat lon)"
  using assms by (auto simp: out_of_bounds_def in_box_def in_interval_def fgt_def flt_iff_not_fle)

lemma GetElevation_rejects_iff:
  "fst (GetElevation impl eg lat lon) = Inl OutOfBounds \<longleftrightarrow> out_of_bounds eg lat lon"
  by (simp add: GetElevation_def Let_def split: option.split)

lemma fle_refl: "\<not> is_nan x \<Longrightarrow> fle x x"
  by (cases x) simp_all

section \<open>The example grid, evaluated\<close>

lemma demo_values:
  "f64c 0 0 = Fin False 0 (- 1074)"
  "f64c 1 0 = Fin False 4503599627370496 (- 52)"
  "f64c 2 0 = Fin False 4503599627370496 (- 51)"
  "f64c 100 0 = Fin False 7036874417766400 (- 46)"
  "f64_of_int 100 = Fin False 7036874417766400 (- 46)"
  "f64c (- 9999) 0 = Fin True 5497008383066112 (- 39)"
  "lon_below_one = Fin False 9006924376834048 (- 53)"
  by (simp_all add: f64_eval lon_below_one_def)

text \<open>
  The coordinates of the examples are binary64 numbers, and the constant
  \<open>0.999969482421875\<close> is \<open>1 - 2^(-15)\<close> exactly.
\<close>

lemma demo_values_genuine:
  "is_float64 (f64c 0 0)" "is_float64 (f64c 1 0)" "is_float64 (f64c 2 0)"
  "is_float64 (f64c 3 0)" "is_float64 lon_below_one"
  by (simp_all add: is_float64_def f64_eval lon_below_one_def)

lemma lon_below_one_exact:
  "lon_below_one = Fin False (2 ^ 53 - 2 ^ 38) (- 53) \<and>
   (2 ^ 53 - 2 ^ 38) * 10 ^ 15 = 999969482421875 * (2 ^ 53 :: int)"
  by (simp add: demo_values)

lemma dec_Suc0: "dec (Suc 0) = [digit 1]"
  by (simp add: dec.simps)

lemma demo_keys:
  "cacheKey (f64c 0 0) lon_below_one = ''0.0000,1.0000''"
  "cacheKey (f64c 0 0) (f64c 1 0) = ''0.0000,1.0000''"
  "cacheKey NaN NaN = ''NaN,NaN''"
  by (simp_all add: demo_values cacheKey_def round_div_even_def dec_eval dec_Suc0 digit_def)


lemmas rnd_eval = rnd_def ilog2q_def round_div_even_def scaled_def Let_def

lemmas cell_eval = cell_x_def cell_y_def fsub_def f64_to_int_def wrap64_def

lemma demo_fields:
  "grid demo_grid = [100, - 9999, 250, 7]" "width demo_grid = 2" "height demo_grid = 2"
  "hotspotCache demo_grid = Map.empty"
  by (simp_all add: demo_grid_def)

lemma demo_in_bounds:
  "\<not> out_of_bounds demo_grid (f64c 0 0) lon_below_one"
  "\<not> out_of_bounds demo_grid (f64c 0 0) (f64c 1 0)"
  "\<not> out_of_bounds demo_grid NaN NaN"
  by (simp_all add: demo_values out_of_bounds_def fgt_def scaled_def demo_grid_def)

lemma demo_cells:
  "cell_x amd64 demo_grid lon_below_one = 0"
  "cell_x amd64 demo_grid (f64c 1 0) = 1"
  "cell_y amd64 demo_grid (f64c 0 0) = 0"
  "cell_x amd64 demo_grid NaN = 0"
  "cell_y amd64 demo_grid NaN = 0"
  by (simp_all add: demo_values cell_eval rnd_eval demo_grid_def amd64_def)

lemma demo_index:
  "cell_index amd64 demo_grid (f64c 0 0) lon_below_one = 0"
  "cell_index amd64 demo_grid (f64c 0 0) (f64c 1 0) = 1"
  "cell_index amd64 demo_grid NaN NaN = 0"
  by (simp_all add: cell_index_def demo_cells wrap64_def demo_fields)

lemma demo_metres: "fdiv (f64_of_int 100) (f64c 100 0) = f64c 1 0"
  by (simp add: demo_values rnd_eval)

lemma demo_first_call:
  "GetElevation amd64 demo_grid (f64c 0 0) lon_below_one =
     (Inr (f64c 1 0), demo_grid\<lparr>hotspotCache := [''0.0000,1.0000'' \<mapsto> f64c 1 0]\<rparr>)"
  unfolding GetElevation_def demo_keys demo_index Let_def
  by (simp add: demo_in_bounds demo_fields demo_metres)

lemma demo_grid_cached_eq:
  "demo_grid_cached = demo_grid\<lparr>hotspotCache := [''0.0000,1.0000'' \<mapsto> f64c 1 0]\<rparr>"
  by (simp add: demo_grid_cached_def demo_first_call)

lemma demo_sentinel_call:
  "GetElevation amd64 demo_grid (f64c 0 0) (f64c 1 0) = (Inr (f64c (- 9999) 0), demo_grid)"
  unfolding GetElevation_def demo_keys demo_index Let_def
  by (simp add: demo_in_bounds demo_fields)

lemma demo_nan_call:
  "fst (GetElevation amd64 demo_grid NaN NaN) = Inr (f64c 1 0)"
  unfolding GetElevation_def demo_keys demo_index Let_def
  by (simp add: demo_in_bounds demo_fields demo_metres)

lemma out_of_bounds_cache [simp]:
  "out_of_bounds (eg\<lparr>hotspotCache := c\<rparr>) lat lon = out_of_bounds eg lat lon"
  by (simp add: out_of_bounds_def)

lemma cell_index_cache [simp]:
  "cell_index impl (eg\<lparr>hotspotCache := c\<rparr>) lat lon = cell_index impl eg lat lon"
  by (simp add: cell_index_def cell_x_def cell_y_def Let_def)

lemma resolved_cell_cache [simp]:
  "resolved_cell impl (eg\<lparr>hotspotCache := c\<rparr>) lat lon = resolved_cell impl eg lat lon"
  by (simp add: resolved_cell_def Let_def)

lemma demo_resolved:
  "resolved_cell amd64 demo_grid (f64c 0 0) lon_below_one = Some 100"
  "resolved_cell amd64 demo_grid (f64c 0 0) (f64c 1 0) = Some (- 9999)"
  by (simp_all add: resolved_cell_def demo_index demo_fields)

lemma demo_hit_call:
  "GetElevation amd64 demo_grid_cached (f64c 0 0) (f64c 1 0) = (Inr (f64c 1 0), demo_grid_cached)"
  unfolding GetElevation_def demo_keys demo_grid_cached_eq Let_def
  by (simp add: demo_in_bounds)

section \<open>The cache\<close>



section \<open>The sentinel\<close>

lemma demo_distinct: "f64c 1 0 \<noteq> f64c (- 9999) 0"
  by (simp add: demo_values)

text \<open>
  Claim C2, as stated, fails. On the example grid the coordinate \<open>(0, 1)\<close> resolves to the
  cell without data, and a first call returns \<open>-9999\<close> and caches nothing. A call at
  \<open>(0, 1 - 2^(-15))\<close>, which lies in the neighbouring cell and has the same key
  \<open>0.0000,1.0000\<close>, stores \<open>1.0\<close> under that key. The next call at \<open>(0, 1)\<close>, still in
  bounds and still resolving to the cell without data, hits the cache and returns \<open>1.0\<close>:
  it neither returns the sentinel nor recomputes the lookup.
\<close>

theorem sentinel_claim_counterexample:
  "GetElevation amd64 demo_grid (f64c 0 0) (f64c 1 0) = (Inr (f64c (- 9999) 0), demo_grid) \<and>
   demo_grid_cached = snd (GetElevation amd64 demo_grid (f64c 0 0) lon_below_one) \<and>
   \<not> out_of_bounds demo_grid_cached (f64c 0 0) (f64c 1 0) \<and>
   resolved_cell amd64 demo_grid_cached (f64c 0 0) (f64c 1 0) = Some (- 9999) \<and>
   hotspotCache demo_grid_cached (cacheKey (f64c 0 0) (f64c 1 0)) = Some (f64c 1 0) \<and>
   fst (GetElevation amd64 demo_grid_cached (f64c 0 0) (f64c 1 0)) = Inr (f64c 1 0) \<and>
   f64c 1 0 \<noteq> f64c (- 9999) 0"
  by (simp add: demo_sentinel_call demo_hit_call demo_grid_cached_def[symmetric] demo_distinct)
     (simp add: demo_grid_cached_eq demo_in_bounds demo_resolved demo_keys)

text \<open>
  Claim C2, amended. For every in-bounds coordinate whose key is not in the cache and
  whose resolved cell holds the sentinel, \<open>GetElevation\<close> returns \<open>-9999\<close> (not \<open>-99.99\<close>)
  with no error and leaves the cache as it was, so the same call repeated right after
  misses the cache again and returns \<open>-9999\<close> again.
\<close>

theorem sentinel_not_cached:
  assumes "\<not> out_of_bounds eg lat lon"
    and "hotspotCache eg (cacheKey lat lon) = None"
    and "resolved_cell impl eg lat lon = Some (- 9999)"
  shows "GetElevation impl eg lat lon = (Inr (f64c (- 9999) 0), eg) \<and>
         GetElevation impl (snd (GetElevation impl eg lat lon)) lat lon =
           (Inr (f64c (- 9999) 0), eg) \<and>
         f64c (- 9999) 0 \<noteq> fdiv (f64_of_int (- 9999)) (f64c 100 0)"
proof -
  have "GetElevation impl eg lat lon = (Inr (f64c (- 9999) 0), eg)"
    using assms by (auto simp: GetElevation_def Let_def resolved_cell_def split: if_splits)
  moreover have "f64c (- 9999) 0 \<noteq> fdiv (f64_of_int (- 9999)) (f64c 100 0)"
    by (simp add: f64c_def f64_of_int_def rnd_eval)
  ultimately show ?thesis by simp
qed

theorem sentinel_not_cached_witness:
  "\<not> out_of_bounds demo_grid (f64c 0 0) (f64c 1 0) \<and>
   hotspotCache demo_grid (cacheKey (f64c 0 0) (f64c 1 0)) = None \<and>
   resolved_cell amd64 demo_grid (f64c 0 0) (f64c 1 0) = Some (- 9999) \<and>
   GetElevation amd64 demo_grid (f64c 0 0) (f64c 1 0) = (Inr (f64c (- 9999) 0), demo_grid)"
proof -
  have h1: "\<not> out_of_bounds demo_grid (f64c 0 0) (f64c 1 0)" by (rule demo_in_bounds)
  have h2: "hotspotCache demo_grid (cacheKey (f64c 0 0) (f64c 1 0)) = None"
    by (simp add: demo_fields)
  have h3: "resolved_cell amd64 demo_grid (f64c 0 0) (f64c 1 0) = Some (- 9999)"
    by (rule demo_resolved)
  show ?thesis using h1 h2 h3 sentinel_not_cached[OF h1 h2 h3] by simp
qed

section \<open>NaN coordinates\<close>

text \<open>
  Claim C1 at NaN coordinates. A NaN is in no interval, so \<open>(NaN, NaN)\<close> is outside the
  bounding box of every grid; the comparisons of the bounds check are all false for it,
  so \<open>GetElevation\<close> never answers it with the out-of-bounds error. On the example grid
  the call returns the elevation of the cell at row 0 and column 0.
\<close>

theorem nan_not_rejected:
  "\<not> in_box eg NaN NaN \<and> fst (GetElevation impl eg NaN NaN) \<noteq> Inl OutOfBounds \<and>
   fst (GetElevation amd64 demo_grid NaN NaN) = Inr (f64c 1 0)"
  by (simp add: in_box_def in_interval_def GetElevation_rejects_iff out_of_bounds_def fgt_def
      demo_nan_call)


section \<open>Batches\<close>

lemma GetElevation_same_geometry:
  "same_geometry eg (snd (GetElevation impl eg lat lon))"
  by (simp add: GetElevation_def Let_def same_geometry_def split: option.split)

lemma same_geometry_grid_wf: "same_geometry a b \<Longrightarrow> grid_wf b = grid_wf a"
  by (simp add: same_geometry_def grid_wf_def)

lemma same_geometry_out_of_bounds:
  "same_geometry a b \<Longrightarrow> out_of_bounds b lat lon = out_of_bounds a lat lon"
  by (simp add: same_geometry_def out_of_bounds_def)

lemma same_geometry_trans: "same_geometry a b \<Longrightarrow> same_geometry b c \<Longrightarrow> same_geometry a c"
  by (simp add: same_geometry_def)

lemma GetElevation_oob:
  "out_of_bounds eg lat lon \<Longrightarrow> GetElevation impl eg lat lon = (Inl OutOfBounds, eg)"
  by (simp add: GetElevation_def)

lemma grid_after_same_geometry: "same_geometry eg (grid_after impl eg ps)"
proof (induction ps arbitrary: eg)
  case Nil
  show ?case by (simp add: same_geometry_def)
next
  case (Cons p ps)
  show ?case
    using GetElevation_same_geometry[of eg impl "Lat p" "Lon p"]
      Cons.IH[of "snd (GetElevation impl eg (Lat p) (Lon p))"]
    by (simp add: same_geometry_trans)
qed

lemma point_elevation_oob:
  "out_of_bounds eg (Lat p) (Lon p) \<Longrightarrow> point_elevation impl eg p = f64c (- 9999) 0"
  by (simp add: point_elevation_def GetElevation_oob)

lemma GetBatchElevations_total:
  assumes "grid_wf eg"
  shows "\<exists>vs. GetBatchElevations impl eg ps = (Inr vs, grid_after impl eg ps) \<and>
           length vs = length ps \<and>
           (\<forall>i<length ps.
              vs ! i = point_elevation impl (grid_after impl eg (take i ps)) (ps ! i))"
  using assms
proof (induction ps arbitrary: eg)
  case Nil
  show ?case by simp
next
  case (Cons p ps)
  define r where "r = fst (GetElevation impl eg (Lat p) (Lon p))"
  define eg1 where "eg1 = snd (GetElevation impl eg (Lat p) (Lon p))"
  have first: "GetElevation impl eg (Lat p) (Lon p) = (r, eg1)"
    by (simp add: r_def eg1_def)
  have g1: "same_geometry eg eg1"
    using GetElevation_same_geometry[of eg impl "Lat p" "Lon p"] by (simp add: eg1_def)
  have nopanic: "r \<noteq> Inl Panic"
    using GetElevation_no_panic[OF Cons.prems, of impl "Lat p" "Lon p"] by (simp add: r_def)
  have wf1: "grid_wf eg1" using Cons.prems same_geometry_grid_wf[OF g1] by simp
  obtain vs where rest: "GetBatchElevations impl eg1 ps = (Inr vs, grid_after impl eg1 ps)"
    and len: "length vs = length ps"
    and each: "\<forall>i<length ps.
                 vs ! i = point_elevation impl (grid_after impl eg1 (take i ps)) (ps ! i)"
    using Cons.IH[OF wf1] by blast
  have v: "(case r of Inl err \<Rightarrow> f64c (- 9999) 0 | Inr elev \<Rightarrow> elev) = point_elevation impl eg p"
    by (simp add: point_elevation_def r_def)
  have ga: "\<And>qs. grid_after impl eg (p # qs) = grid_after impl eg1 qs"
    by (simp add: eg1_def)
  have res: "GetBatchElevations impl eg (p # ps) =
      (Inr (point_elevation impl eg p # vs), grid_after impl eg (p # ps))"
    using first nopanic rest v by (simp add: Let_def ga)
  have "\<forall>i<length (p # ps).
          (point_elevation impl eg p # vs) ! i =
            point_elevation impl (grid_after impl eg (take i (p # ps))) ((p # ps) ! i)"
  proof (intro allI impI)
    fix i assume "i < length (p # ps)"
    then show "(point_elevation impl eg p # vs) ! i =
            point_elevation impl (grid_after impl eg (take i (p # ps))) ((p # ps) ! i)"
      using each unfolding eg1_def by (cases i) simp_all
  qed
  then show ?case using res len by simp
qed

lemma demo_oob: "out_of_bounds demo_grid (f64c 3 0) (f64c 0 0)"
  by (simp add: out_of_bounds_def fgt_def demo_grid_def f64c_def rnd_eval)

lemma demo_batch:
  "GetBatchElevations amd64 demo_grid demo_points =
     (Inr [f64c 1 0, f64c (- 9999) 0, f64c 1 0], demo_grid_cached)"
proof -
  have 1: "GetElevation amd64 demo_grid (f64c 0 0) lon_below_one = (Inr (f64c 1 0), demo_grid_cached)"
    by (simp add: demo_first_call demo_grid_cached_eq)
  have "out_of_bounds demo_grid_cached (f64c 3 0) (f64c 0 0)"
    by (simp add: demo_grid_cached_eq demo_oob)
  then have 2: "GetElevation amd64 demo_grid_cached (f64c 3 0) (f64c 0 0) =
      (Inl OutOfBounds, demo_grid_cached)"
    by (rule GetElevation_oob)
  show ?thesis
    by (simp add: demo_points_def 1 2 demo_hit_call)
qed

section \<open>The request counter\<close>

lemma Service_GetElevation_requests:
  "requests (snd (Service_GetElevation impl s lat lon)) = requests s + 1"
  by (simp add: Service_GetElevation_def Let_def split: prod.split)

lemma Service_GetElevation_delegates:
  "fst (Service_GetElevation impl s lat lon) = fst (GetElevation impl (egrid s) lat lon) \<and>
   egrid (snd (Service_GetElevation impl s lat lon)) = snd (GetElevation impl (egrid s) lat lon)"
  by (simp add: Service_GetElevation_def Let_def split: prod.split)

lemma Service_GetBatchElevations_delegates:
  "egrid (snd (Service_GetBatchElevations impl s points)) =
     snd (GetBatchElevations impl (egrid s) points)"
  by (simp add: Service_GetBatchElevations_def Let_def split: prod.split sum.split)

lemma Service_GetBatchElevations_requests:
  "requests (snd (Service_GetBatchElevations impl s points)) = requests s + of_nat (length points)"
  by (simp add: Service_GetBatchElevations_def Let_def split: prod.split sum.split)

lemma serve_requests: "requests (serve impl s r) = requests s + of_nat (counted r)"
  by (cases r) (simp_all add: Service_GetElevation_requests Service_GetBatchElevations_requests)

lemma served_requests:
  "requests (foldl (serve impl) s rs) = requests s + of_nat (sum_list (map counted rs))"
  by (induction rs arbitrary: s) (simp_all add: serve_requests)

lemma counted_singles: "sum_list (map counted (map (\<lambda>c. Single (fst c) (snd c)) cs)) = length cs"
  by (induction cs) simp_all

lemma served_singles:
  "requests (foldl (serve impl) s (map (\<lambda>c. Single (fst c) (snd c)) cs)) =
     requests s + of_nat (length cs)"
  unfolding served_requests counted_singles by (rule refl)

lemma word64_add_no_wrap:
  fixes a :: "64 word"
  assumes "unat a + n < 2 ^ 64"
  shows "unat (a + of_nat n) = unat a + n \<and> a \<le> a + of_nat n"
proof -
  have n: "unat (of_nat n :: 64 word) = n" using assms by (simp add: unat_of_nat)
  then have "unat (a + of_nat n) = unat a + n"
    using assms unat_add_lem[of a "of_nat n"] by simp
  then show ?thesis by (simp add: word_le_nat_alt)
qed

text \<open>
  Claim C7, as stated, fails where the counter wraps around: the counter is a \<open>uint64\<close>,
  and on a service that has counted \<open>2^64 - 1\<close> requests one more call of
  \<open>GetElevation\<close> sets it to 0, which is less than before.
\<close>

theorem request_counter_counterexample:
  "requests full_service = 18446744073709551615 \<and>
   requests (snd (Service_GetElevation amd64 full_service (f64c 0 0) (f64c 0 0))) = 0 \<and>
   \<not> requests full_service \<le>
       requests (snd (Service_GetElevation amd64 full_service (f64c 0 0) (f64c 0 0)))"
  by (simp add: Service_GetElevation_requests full_service_def)

text \<open>
  Claim C7, amended. \<open>Service.GetElevation\<close> adds 1 to the request counter and
  \<open>Service.GetBatchElevations\<close> adds the number of points, in the arithmetic of \<open>uint64\<close>
  and whatever the grid, to which both delegate, then returns; so the \<open>total_requests\<close> of \<open>GetHealth\<close> after \<open>N\<close>
  more calls of \<open>GetElevation\<close> is the value before plus \<open>N\<close> modulo \<open>2^64\<close>, a sequence
  of operations adds the number of single calls plus the sizes of the batches, and as
  long as that sum stays below \<open>2^64\<close> the counter does not decrease.
\<close>

theorem request_counter:
  "requests (snd (Service_GetElevation impl s lat lon)) = requests s + 1 \<and>
   fst (Service_GetElevation impl s lat lon) = fst (GetElevation impl (egrid s) lat lon) \<and>
   requests (snd (Service_GetBatchElevations impl s points)) =
     requests s + of_nat (length points) \<and>
   egrid (snd (Service_GetBatchElevations impl s points)) =
     snd (GetBatchElevations impl (egrid s) points) \<and>
   TotalRequests (GetHealth rt' (foldl (serve impl) s (map (\<lambda>c. Single (fst c) (snd c)) cs))) =
     TotalRequests (GetHealth rt s) + of_nat (length cs) \<and>
   requests (foldl (serve impl) s rs) = requests s + of_nat (sum_list (map counted rs)) \<and>
   (unat (requests s) + sum_list (map counted rs) < 2 ^ 64 \<longrightarrow>
      requests s \<le> requests (foldl (serve impl) s rs) \<and>
      unat (requests (foldl (serve impl) s rs)) = unat (requests s) + sum_list (map counted rs))"
  using word64_add_no_wrap[of "requests s" "sum_list (map counted rs)"]
  by (simp add: Service_GetElevation_requests Service_GetBatchElevations_requests
      Service_GetElevation_delegates Service_GetBatchElevations_delegates
      served_singles GetHealth_def served_requests[of impl s rs])

theorem request_counter_witness:
  "unat (requests demo_service) +
     sum_list (map counted [Single (f64c 0 0) (f64c 1 0), Batch demo_points, Health \<lparr> alloc = 0, goroutines = 1, clock = 0 \<rparr>]) < 2 ^ 64 \<and>
   requests (foldl (serve amd64) demo_service
      [Single (f64c 0 0) (f64c 1 0), Batch demo_points, Health \<lparr> alloc = 0, goroutines = 1, clock = 0 \<rparr>]) = 4 \<and>
   requests demo_service \<le> requests (foldl (serve amd64) demo_service
      [Single (f64c 0 0) (f64c 1 0), Batch demo_points, Health \<lparr> alloc = 0, goroutines = 1, clock = 0 \<rparr>])"
  using request_counter[where impl = amd64 and s = demo_service and rs =
      "[Single (f64c 0 0) (f64c 1 0), Batch demo_points, Health \<lparr> alloc = 0, goroutines = 1, clock = 0 \<rparr>]"]
  by (simp add: demo_service_def demo_points_def)


section \<open>Loading\<close>

subsection \<open>The example headers\<close>

lemma le_nat_zeros: "le_nat (replicate n 0) = 0"
  by (induction n) simp_all

lemma Float64frombits_0: "Float64frombits 0 = Fin False 0 (- 1074)"
  by (simp add: Float64frombits_def)

lemma wrap32_small: "wrap32 0 = 0" "wrap32 1 = 1" "wrap32 2 = 2"
  by (simp_all add: wrap32_def)

lemma zero_header_read: "ReadFull zero_header 48 = Inr (replicate 48 0)"
  by (simp add: ReadFull_def zero_header_def)

lemma zero_header_decoded:
  "decode_header (replicate 48 0) =
     \<lparr> Width = 0, Height = 0, MinLat = Fin False 0 (- 1074), MaxLat = Fin False 0 (- 1074),
       MinLon = Fin False 0 (- 1074), MaxLon = Fin False 0 (- 1074),
       GridSize = Fin False 0 (- 1074) \<rparr>"
  by (simp add: decode_header_def le_nat_zeros Float64frombits_0 wrap32_small)

lemma zero_header_loaded: "loadHeader NewElevationGrid (Opened zero_header) = Inr zero_geometry"
  by (simp add: loadHeader_def zero_header_read zero_header_decoded zero_geometry_def
      NewElevationGrid_def)

lemma tiny_header_read:
  "ReadFull tiny_header 48 = Inr (2 # 0 # 0 # 0 # 1 # 0 # 0 # 0 # replicate 40 0)"
  by (simp add: ReadFull_def tiny_header_def)

lemma tiny_header_decoded:
  "decode_header (2 # 0 # 0 # 0 # 1 # 0 # 0 # 0 # replicate 40 0) =
     \<lparr> Width = 2, Height = 1, MinLat = Fin False 0 (- 1074), MaxLat = Fin False 0 (- 1074),
       MinLon = Fin False 0 (- 1074), MaxLon = Fin False 0 (- 1074),
       GridSize = Fin False 0 (- 1074) \<rparr>"
  by (simp add: decode_header_def le_nat_zeros Float64frombits_0 wrap32_small)

lemma tiny_header_loaded: "loadHeader NewElevationGrid (Opened tiny_header) = Inr tiny_geometry"
  by (simp add: loadHeader_def tiny_header_read tiny_header_decoded tiny_geometry_def
      zero_geometry_def NewElevationGrid_def)


subsection \<open>The size of the data file\<close>

text \<open>
  The width and the height come from \<open>int32\<close> fields or from the defaults, so their
  product does not wrap around in 64 bits, and the expected size \<open>width * height * 2\<close>
  wraps only when both are \<open>-2^31\<close>.
\<close>

lemma int32_product:
  assumes "- (2 ^ 31) \<le> w" "w < 2 ^ 31" "- (2 ^ 31) \<le> h" "h < 2 ^ 31"
  shows "- (2 ^ 62) \<le> w * h \<and> w * h \<le> (2 ^ 62 :: int)"
proof -
  have "\<bar>w\<bar> \<le> 2 ^ 31" "\<bar>h\<bar> \<le> 2 ^ 31" using assms by simp_all
  then have "\<bar>w\<bar> * \<bar>h\<bar> \<le> 2 ^ 31 * 2 ^ 31" by (intro mult_mono) simp_all
  then have "\<bar>w * h\<bar> \<le> 2 ^ 62" by (simp add: abs_mult)
  then show ?thesis by linarith
qed

lemma wrap32_range: "- (2 ^ 31) \<le> wrap32 i \<and> wrap32 i < 2 ^ 31"
  by (simp add: wrap32_def) 

lemma loadHeader_int32:
  assumes "loadHeader eg0 headerPath = Inr eg"
  shows "- (2 ^ 31) \<le> width eg \<and> width eg < 2 ^ 31 \<and> - (2 ^ 31) \<le> height eg \<and> height eg < 2 ^ 31"
  using assms wrap32_range
  by (auto simp: loadHeader_def decode_header_def Let_def split: open_result.splits sum.splits)

lemma wrap64_product:
  assumes "- (2 ^ 31) \<le> width eg" "width eg < 2 ^ 31" "- (2 ^ 31) \<le> height eg" "height eg < 2 ^ 31"
  shows "wrap64 (width eg * height eg) = width eg * height eg"
  using int32_product[OF assms] by (intro wrap64_id) simp_all

lemma wrap64_double:
  assumes "- (2 ^ 62) \<le> p" "p \<le> (2 ^ 62 :: int)" "0 \<le> sz" "sz < 2 ^ 63"
  shows "sz = wrap64 (p * 2) \<longleftrightarrow> sz = p * 2"
proof (cases "p = 2 ^ 62")
  case True
  then show ?thesis using assms(3,4) by (simp add: wrap64_def)
next
  case False
  then have "p < 2 ^ 62" using assms(2) by simp
  then have "wrap64 (p * 2) = p * 2" using assms(1) by (intro wrap64_id) simp_all
  then show ?thesis by simp
qed

lemma expectedSize_int32:
  assumes "- (2 ^ 31) \<le> width eg" "width eg < 2 ^ 31" "- (2 ^ 31) \<le> height eg" "height eg < 2 ^ 31"
    and "0 \<le> sz" "sz < 2 ^ 63"
  shows "sz = expectedSize eg \<longleftrightarrow> sz = width eg * height eg * 2"
  using wrap64_double[of "width eg * height eg" sz] int32_product[OF assms(1-4)] assms(5,6)
  by (simp add: expectedSize_def wrap64_product[OF assms(1-4)])


lemma expectedSize_nonneg:
  assumes "- (2 ^ 31) \<le> width eg" "width eg < 2 ^ 31" "- (2 ^ 31) \<le> height eg" "height eg < 2 ^ 31"
    and "0 \<le> expectedSize eg"
  shows "0 \<le> width eg * height eg \<and> expectedSize eg = width eg * height eg * 2"
proof -
  define p where "p = width eg * height eg"
  have p: "- (2 ^ 62) \<le> p" "p \<le> 2 ^ 62" using int32_product[OF assms(1-4)] by (simp_all add: p_def)
  have e: "expectedSize eg = wrap64 (p * 2)"
    by (simp add: expectedSize_def wrap64_product[OF assms(1-4)] p_def)
  have "p \<noteq> 2 ^ 62" using assms(5) e by (auto simp: wrap64_def)
  then have "p < 2 ^ 62" using p by simp
  then have "wrap64 (p * 2) = p * 2" using p by (intro wrap64_id) simp_all
  then have "0 \<le> p \<and> expectedSize eg = p * 2" using e assms(5) by simp
  then show ?thesis unfolding p_def .
qed

lemma generateTestData_ok:
  assumes "- (2 ^ 31) \<le> width eg" "width eg < 2 ^ 31" "- (2 ^ 31) \<le> height eg" "height eg < 2 ^ 31"
    and "\<not> makeslice_panics impl 2 (width eg * height eg)"
  shows "generateTestData impl eg =
           Inr (eg\<lparr>grid := map (synth_cell impl eg) [0..width eg * height eg - 1]\<rparr>)"
  using assms(5) by (simp add: generateTestData_def wrap64_product[OF assms(1-4)] Let_def)

lemma generateTestData_panics:
  assumes "- (2 ^ 31) \<le> width eg" "width eg < 2 ^ 31" "- (2 ^ 31) \<le> height eg" "height eg < 2 ^ 31"
    and "makeslice_panics impl 2 (width eg * height eg)"
  shows "generateTestData impl eg = Inl Panic"
  using assms(5) by (simp add: generateTestData_def wrap64_product[OF assms(1-4)] Let_def)

lemma loadData_size_mismatch:
  assumes "file_size f = Some sz" "sz \<noteq> expectedSize eg"
  shows "loadData impl eg (Opened f) = Inl (SizeMismatch (expectedSize eg) sz)"
  using assms by (simp add: loadData_def)

lemma loadData_truncated:
  assumes "file_size f = Some (expectedSize eg)" "read_meets_end impl eg f"
  shows "loadData impl eg (Opened f) = generateTestData impl eg"
  using assms by (auto simp: loadData_def read_meets_end_def Let_def)

lemma LoadFromFile_fails:
  assumes "loadHeader eg0 headerPath = Inr eg" "loadData impl eg dataPath = Inl err" "err \<noteq> Panic"
  shows "LoadFromFile impl eg0 dataPath headerPath = Inl (Wrap ''failed to load data'' err)"
  using assms by (simp add: LoadFromFile_def wrap_error_def)

lemma LoadFromFile_panics:
  assumes "loadHeader eg0 headerPath = Inr eg" "loadData impl eg dataPath = Inl Panic"
  shows "LoadFromFile impl eg0 dataPath headerPath = Inl Panic"
  using assms by (simp add: LoadFromFile_def wrap_error_def)

lemma LoadFromFile_succeeds:
  assumes "loadHeader eg0 headerPath = Inr eg" "loadData impl eg dataPath = Inr eg2"
  shows "LoadFromFile impl eg0 dataPath headerPath =
           Inr (eg2\<lparr>invGridSize := fdiv (f64c 1 0) (gridSize eg2)\<rparr>)"
  using assms by (simp add: LoadFromFile_def)

text \<open>
  Claim C3. With the geometry \<open>eg\<close> that the header step has fixed: if the data file
  exists and \<open>Stat\<close> reports a size (a non-negative \<open>int64\<close>) that differs from
  \<open>width * height * 2\<close>, \<open>loadData\<close> fails with the size-mismatch error and the
  construction of the service fails with it, wrapped; if the size check passes and the read
  that follows takes place and meets the end of the input (\<open>EOF\<close> or \<open>ErrUnexpectedEOF\<close>),
  \<open>loadData\<close> gives what the synthetic generator gives and the construction succeeds with
  the synthetic cells; if the data file does not exist, \<open>loadData\<close> again gives what the
  synthetic generator gives: the construction succeeds with the synthetic cells when the
  generator can allocate its \<open>width * height\<close> cells, and ends in the panic of \<open>make\<close> when
  it cannot (a negative product, or more bytes than the limit of the allocator).
\<close>

theorem data_file_policy:
  assumes "loadHeader NewElevationGrid headerPath = Inr eg"
  shows "(file_size f = Some sz \<and> 0 \<le> sz \<and> sz < 2 ^ 63 \<and> sz \<noteq> width eg * height eg * 2 \<longrightarrow>
            loadData impl eg (Opened f) = Inl (SizeMismatch (expectedSize eg) sz) \<and>
            NewService impl now (Opened f) headerPath =
              Inl (Wrap ''failed to load elevation data''
                    (Wrap ''failed to load data'' (SizeMismatch (expectedSize eg) sz)))) \<and>
         (file_size f = Some (expectedSize eg) \<and> read_meets_end impl eg f \<longrightarrow>
            loadData impl eg (Opened f) = generateTestData impl eg \<and>
            (\<exists>s. NewService impl now (Opened f) headerPath = Inr s \<and>
                 grid (egrid s) = map (synth_cell impl eg) [0..width eg * height eg - 1])) \<and>
         loadData impl eg NotExist = generateTestData impl eg \<and>
         (\<not> makeslice_panics impl 2 (width eg * height eg) \<longrightarrow>
            (\<exists>s. NewService impl now NotExist headerPath = Inr s \<and>
                 grid (egrid s) = map (synth_cell impl eg) [0..width eg * height eg - 1])) \<and>
         (makeslice_panics impl 2 (width eg * height eg) \<longrightarrow>
            NewService impl now NotExist headerPath = Inl Panic)"
proof -
  note r = loadHeader_int32[OF assms]
  have r4: "- (2 ^ 31) \<le> width eg" "width eg < 2 ^ 31" "- (2 ^ 31) \<le> height eg" "height eg < 2 ^ 31"
    using r by simp_all
  have A: "loadData impl eg (Opened f) = Inl (SizeMismatch (expectedSize eg) sz) \<and>
           NewService impl now (Opened f) headerPath =
              Inl (Wrap ''failed to load elevation data''
                    (Wrap ''failed to load data'' (SizeMismatch (expectedSize eg) sz)))"
    if "file_size f = Some sz" "0 \<le> sz" "sz < 2 ^ 63" "sz \<noteq> width eg * height eg * 2"
  proof -
    have "sz \<noteq> expectedSize eg" using expectedSize_int32[OF r4 that(2,3)] that(4) by simp
    then have d: "loadData impl eg (Opened f) = Inl (SizeMismatch (expectedSize eg) sz)"
      using that(1) by (rule loadData_size_mismatch[rotated])
    then show ?thesis
      using LoadFromFile_fails[OF assms d] by (simp add: NewService_def wrap_error_def)
  qed
  have gen: "\<exists>s. NewService impl now dataPath headerPath = Inr s \<and>
                 grid (egrid s) = map (synth_cell impl eg) [0..width eg * height eg - 1]"
    if "loadData impl eg dataPath = generateTestData impl eg"
       "\<not> makeslice_panics impl 2 (width eg * height eg)"
    for dataPath
  proof -
    have "loadData impl eg dataPath =
            Inr (eg\<lparr>grid := map (synth_cell impl eg) [0..width eg * height eg - 1]\<rparr>)"
      using that generateTestData_ok[OF r4 that(2)] by simp
    from LoadFromFile_succeeds[OF assms this] show ?thesis by (simp add: NewService_def)
  qed
  have B: "loadData impl eg (Opened f) = generateTestData impl eg \<and>
            (\<exists>s. NewService impl now (Opened f) headerPath = Inr s \<and>
                 grid (egrid s) = map (synth_cell impl eg) [0..width eg * height eg - 1])"
    if "file_size f = Some (expectedSize eg)" "read_meets_end impl eg f"
  proof -
    have l: "loadData impl eg (Opened f) = generateTestData impl eg"
      using loadData_truncated[OF that] .
    have "\<not> makeslice_panics impl 2 (width eg * height eg)"
      using that(2) by (simp add: read_meets_end_def wrap64_product[OF r4] Let_def)
    from gen[OF l this] l show ?thesis by simp
  qed
  have C: "loadData impl eg NotExist = generateTestData impl eg" by (simp add: loadData_def)
  have D: "NewService impl now NotExist headerPath = Inl Panic"
    if "makeslice_panics impl 2 (width eg * height eg)"
  proof -
    have "loadData impl eg NotExist = Inl Panic"
      using C generateTestData_panics[OF r4 that] by simp
    from LoadFromFile_panics[OF assms this] show ?thesis
      by (simp add: NewService_def wrap_error_def)
  qed
  show ?thesis using A B C D gen[OF C] by blast
qed

lemma amd64_max_alloc: "max_alloc amd64 = 2 ^ 48"
  by (simp add: amd64_def)

lemma tiny_fields:
  "width tiny_geometry = 2" "height tiny_geometry = 1" "expectedSize tiny_geometry = 4"
  by (simp_all add: tiny_geometry_def zero_geometry_def expectedSize_def wrap64_def)

lemma tiny_cells:
  "synth_cell amd64 tiny_geometry 0 = 500" "synth_cell amd64 tiny_geometry 1 = 500"
  by (simp_all add: synth_cell_def tdiv_def trem_def f64c_def f64_of_int_def rnd_eval fge_def
      f64_to_int16_def tiny_geometry_def zero_geometry_def)

lemma tiny_synthetic:
  "generateTestData amd64 tiny_geometry = Inr (tiny_geometry\<lparr>grid := [500, 500]\<rparr>)"
  by (simp add: generateTestData_def tiny_fields wrap64_def upto.simps tiny_cells
      makeslice_panics_def amd64_max_alloc)

lemma tiny_read_meets_end: "read_meets_end amd64 tiny_geometry truncated_data"
  by (simp add: read_meets_end_def tiny_fields wrap64_def makeslice_panics_def amd64_max_alloc
      ReadFull_def truncated_data_def)

lemma huge_header_read:
  "ReadFull huge_header 48 = Inr (255 # 255 # 255 # 127 # 255 # 255 # 255 # 127 # replicate 40 0)"
  by (simp add: ReadFull_def huge_header_def)

lemma huge_header_decoded:
  "decode_header (255 # 255 # 255 # 127 # 255 # 255 # 255 # 127 # replicate 40 0) =
     \<lparr> Width = 2147483647, Height = 2147483647,
       MinLat = Fin False 0 (- 1074), MaxLat = Fin False 0 (- 1074),
       MinLon = Fin False 0 (- 1074), MaxLon = Fin False 0 (- 1074),
       GridSize = Fin False 0 (- 1074) \<rparr>"
  by (simp add: decode_header_def le_nat_zeros Float64frombits_0 wrap32_def)

lemma huge_header_loaded: "loadHeader NewElevationGrid (Opened huge_header) = Inr huge_geometry"
  by (simp add: loadHeader_def huge_header_read huge_header_decoded huge_geometry_def
      zero_geometry_def NewElevationGrid_def)

lemma huge_fields: "width huge_geometry = 2147483647" "height huge_geometry = 2147483647"
  by (simp_all add: huge_geometry_def zero_geometry_def)

lemma truncated_read: "ReadFull truncated_data 4 = Inl ErrUnexpectedEOF"
  by (simp add: ReadFull_def truncated_data_def)

theorem data_file_policy_witness:
  "loadHeader NewElevationGrid (Opened tiny_header) = Inr tiny_geometry \<and>
   width tiny_geometry * height tiny_geometry * 2 = 4 \<and>
   file_size three_bytes = Some 3 \<and>
   NewService amd64 0 (Opened three_bytes) (Opened tiny_header) =
     Inl (Wrap ''failed to load elevation data''
           (Wrap ''failed to load data'' (SizeMismatch 4 3))) \<and>
   file_size truncated_data = Some (expectedSize tiny_geometry) \<and>
   read_meets_end amd64 tiny_geometry truncated_data \<and>
   loadData amd64 tiny_geometry (Opened truncated_data) =
     Inr (tiny_geometry\<lparr>grid := [500, 500]\<rparr>) \<and>
   (\<exists>s. NewService amd64 0 (Opened truncated_data) (Opened tiny_header) = Inr s \<and>
        grid (egrid s) = [500, 500]) \<and>
   \<not> makeslice_panics amd64 2 (width tiny_geometry * height tiny_geometry) \<and>
   (\<exists>s. NewService amd64 0 NotExist (Opened tiny_header) = Inr s \<and>
        grid (egrid s) = [500, 500]) \<and>
   loadHeader NewElevationGrid (Opened huge_header) = Inr huge_geometry \<and>
   makeslice_panics amd64 2 (width huge_geometry * height huge_geometry) \<and>
   NewService amd64 0 NotExist (Opened huge_header) = Inl Panic"
proof -
  have h: "loadHeader NewElevationGrid (Opened tiny_header) = Inr tiny_geometry"
    by (rule tiny_header_loaded)
  have g: "loadHeader NewElevationGrid (Opened huge_header) = Inr huge_geometry"
    by (rule huge_header_loaded)
  have cells: "map (synth_cell amd64 tiny_geometry) [0..1] = [500, 500]"
    by (simp add: upto.simps tiny_cells)
  have sizes: "file_size three_bytes = Some 3" "file_size truncated_data = Some 4"
    by (simp_all add: three_bytes_def truncated_data_def)
  have fits: "\<not> makeslice_panics amd64 2 (width tiny_geometry * height tiny_geometry)"
    by (simp add: makeslice_panics_def amd64_max_alloc tiny_fields)
  have toobig: "makeslice_panics amd64 2 (width huge_geometry * height huge_geometry)"
    by (simp add: makeslice_panics_def amd64_max_alloc huge_fields)
  have small: "NewService amd64 0 (Opened three_bytes) (Opened tiny_header) =
     Inl (Wrap ''failed to load elevation data''
           (Wrap ''failed to load data'' (SizeMismatch 4 3)))"
    using data_file_policy[OF h, of three_bytes 3 amd64 0] sizes
    by (simp add: tiny_fields)
  have trunc: "loadData amd64 tiny_geometry (Opened truncated_data) =
       Inr (tiny_geometry\<lparr>grid := [500, 500]\<rparr>) \<and>
     (\<exists>s. NewService amd64 0 (Opened truncated_data) (Opened tiny_header) = Inr s \<and>
        grid (egrid s) = [500, 500]) \<and>
     (\<exists>s. NewService amd64 0 NotExist (Opened tiny_header) = Inr s \<and>
        grid (egrid s) = [500, 500])"
    using data_file_policy[OF h, of truncated_data 3 amd64 0] sizes tiny_read_meets_end fits
    by (simp add: tiny_fields tiny_synthetic cells)
  have huge: "NewService amd64 0 NotExist (Opened huge_header) = Inl Panic"
    using data_file_policy[OF g, of three_bytes 3 amd64 0] toobig by simp
  show ?thesis
    using h g small trunc huge fits toobig tiny_read_meets_end sizes
    by (simp add: tiny_fields)
qed

subsection \<open>The header\<close>

text \<open>
  Claim C9. If the header file does not exist, \<open>loadHeader\<close> sets exactly the default
  geometry (width 32000, height 26000, latitudes 20.0 to 46.0, longitudes 122.0 to 154.0,
  grid size 0.001) and \<open>LoadFromFile\<close> goes on to the data with it; if the header file
  exists but has fewer than the 48 bytes of the little-endian layout, \<open>loadHeader\<close> fails
  with the error of the read, and \<open>LoadFromFile\<close> and the construction of the service fail
  with that error, wrapped.
\<close>

lemma ReadFull_short:
  "length (contents f) < n \<Longrightarrow> \<exists>err. ReadFull f n = Inl err"
  by (simp add: ReadFull_def)

theorem header_policy:
  "loadHeader eg NotExist =
     Inr (eg\<lparr>width := 32000, height := 26000, minLat := f64c 20 0, maxLat := f64c 46 0,
             minLon := f64c 122 0, maxLon := f64c 154 0, gridSize := f64c 1 3\<rparr>) \<and>
   LoadFromFile impl eg dataPath NotExist =
     (case loadData impl
             (eg\<lparr>width := 32000, height := 26000, minLat := f64c 20 0, maxLat := f64c 46 0,
                 minLon := f64c 122 0, maxLon := f64c 154 0, gridSize := f64c 1 3\<rparr>) dataPath of
        Inl err \<Rightarrow> Inl (wrap_error ''failed to load data'' err)
      | Inr eg2 \<Rightarrow> Inr (eg2\<lparr>invGridSize := fdiv (f64c 1 0) (gridSize eg2)\<rparr>)) \<and>
   (length (contents f) < 48 \<longrightarrow>
      (\<exists>err. loadHeader eg (Opened f) = Inl (ReadFailed err) \<and>
             LoadFromFile impl eg dataPath (Opened f) =
               Inl (Wrap ''failed to load header'' (ReadFailed err)) \<and>
             NewService impl now dataPath (Opened f) =
               Inl (Wrap ''failed to load elevation data''
                     (Wrap ''failed to load header'' (ReadFailed err)))))"
proof -
  have "\<exists>err. loadHeader eg (Opened f) = Inl (ReadFailed err) \<and>
             LoadFromFile impl eg dataPath (Opened f) =
               Inl (Wrap ''failed to load header'' (ReadFailed err)) \<and>
             NewService impl now dataPath (Opened f) =
               Inl (Wrap ''failed to load elevation data''
                     (Wrap ''failed to load header'' (ReadFailed err)))"
    if "length (contents f) < 48"
  proof -
    from that have "\<exists>err. ReadFull f 48 = Inl err" by (rule ReadFull_short)
    then obtain err where "ReadFull f 48 = Inl err" by blast
    then show ?thesis
      by (simp add: loadHeader_def LoadFromFile_def NewService_def wrap_error_def)
  qed
  then show ?thesis by (simp add: loadHeader_def LoadFromFile_def)
qed

theorem header_policy_witness:
  "length (contents three_bytes) < 48 \<and>
   NewService amd64 0 NotExist (Opened three_bytes) =
     Inl (Wrap ''failed to load elevation data''
           (Wrap ''failed to load header'' (ReadFailed ErrUnexpectedEOF)))"
proof -
  have h: "length (contents three_bytes) < 48" by (simp add: three_bytes_def)
  have "ReadFull three_bytes 48 = Inl ErrUnexpectedEOF"
    by (simp add: ReadFull_def three_bytes_def)
  then have "loadHeader NewElevationGrid (Opened three_bytes) = Inl (ReadFailed ErrUnexpectedEOF)"
    by (simp add: loadHeader_def)
  then show ?thesis
    using h header_policy[of NewElevationGrid amd64 NotExist three_bytes 0]
    by (auto simp: NewService_def)
qed


subsection \<open>The geometry after loading\<close>

lemma loadData_same_geometry:
  assumes "loadData impl eg dataPath = Inr eg2"
  shows "width eg2 = width eg \<and> height eg2 = height eg \<and>
         minLat eg2 = minLat eg \<and> maxLat eg2 = maxLat eg \<and>
         minLon eg2 = minLon eg \<and> maxLon eg2 = maxLon eg \<and> gridSize eg2 = gridSize eg"
  using assms
  by (auto simp: loadData_def generateTestData_def Let_def
      split: open_result.splits option.splits if_splits sum.splits)

lemma geometry_ok_fields:
  "geometry_ok eg =
     (0 < width eg \<and> 0 < height eg \<and> flt (minLat eg) (maxLat eg) \<and>
      flt (minLon eg) (maxLon eg) \<and> fgt (gridSize eg) (f64c 0 0))"
  by (simp add: geometry_ok_def)

lemma default_geometry_ok:
  "flt (f64c 20 0) (f64c 46 0)" "flt (f64c 122 0) (f64c 154 0)" "fgt (f64c 1 3) (f64c 0 0)"
  by (simp_all add: f64c_def rnd_eval fgt_def)

lemma zero_synthetic: "generateTestData amd64 zero_geometry = Inr zero_geometry"
  by (simp add: generateTestData_def zero_geometry_def wrap64_def makeslice_panics_def
      amd64_max_alloc)

lemma zero_loaded:
  "LoadFromFile amd64 NewElevationGrid NotExist (Opened zero_header) =
     Inr (zero_geometry\<lparr>invGridSize := Inf False\<rparr>)"
proof -
  have "loadData amd64 zero_geometry NotExist = Inr zero_geometry"
    by (simp add: loadData_def zero_synthetic)
  from LoadFromFile_succeeds[OF zero_header_loaded this] show ?thesis
    by (simp add: zero_geometry_def f64c_def rnd_eval)
qed

text \<open>
  Claim C8, as stated, fails. A header file of 48 zero bytes parses: the width and the
  height are 0, the bounds and the grid size are \<open>+0\<close>. With no data file the synthetic
  generator makes an empty slice, and the construction of the service succeeds with a
  grid that satisfies none of the five conditions of the geometry invariant.
\<close>

theorem geometry_claim_counterexample:
  "NewService amd64 0 NotExist (Opened zero_header) =
     Inr \<lparr> egrid = zero_geometry\<lparr>invGridSize := Inf False\<rparr>, startTime = 0, requests = 0 \<rparr> \<and>
   width (zero_geometry\<lparr>invGridSize := Inf False\<rparr>) = 0 \<and>
   height (zero_geometry\<lparr>invGridSize := Inf False\<rparr>) = 0 \<and>
   \<not> flt (minLat (zero_geometry\<lparr>invGridSize := Inf False\<rparr>))
          (maxLat (zero_geometry\<lparr>invGridSize := Inf False\<rparr>)) \<and>
   \<not> fgt (gridSize (zero_geometry\<lparr>invGridSize := Inf False\<rparr>)) (f64c 0 0) \<and>
   \<not> geometry_ok (zero_geometry\<lparr>invGridSize := Inf False\<rparr>)"
  by (simp add: NewService_def zero_loaded geometry_ok_def)
     (simp add: zero_geometry_def fgt_def f64c_def rnd_eval)

text \<open>
  Claim C8, amended. A grid that \<open>LoadFromFile\<close> has constructed with the header file
  absent has the default geometry and satisfies the invariant (positive width and height,
  \<open>minLat < maxLat\<close>, \<open>minLon < maxLon\<close>, \<open>gridSize > 0\<close>). A grid constructed from a header
  file has the width, the height, the bounds and the grid size that the first 48 bytes of
  the file decode to, whatever they are.
\<close>

theorem geometry_after_load:
  "(LoadFromFile impl eg dataPath NotExist = Inr eg' \<longrightarrow>
      width eg' = 32000 \<and> height eg' = 26000 \<and>
      minLat eg' = f64c 20 0 \<and> maxLat eg' = f64c 46 0 \<and>
      minLon eg' = f64c 122 0 \<and> maxLon eg' = f64c 154 0 \<and>
      gridSize eg' = f64c 1 3 \<and> geometry_ok eg') \<and>
   (LoadFromFile impl eg dataPath (Opened f) = Inr eg' \<longrightarrow>
      (\<exists>bs. ReadFull f 48 = Inr bs \<and>
            width eg' = Width (decode_header bs) \<and> height eg' = Height (decode_header bs) \<and>
            minLat eg' = MinLat (decode_header bs) \<and> maxLat eg' = MaxLat (decode_header bs) \<and>
            minLon eg' = MinLon (decode_header bs) \<and> maxLon eg' = MaxLon (decode_header bs) \<and>
            gridSize eg' = GridSize (decode_header bs)))"
proof -
  have A: "width eg' = 32000 \<and> height eg' = 26000 \<and>
      minLat eg' = f64c 20 0 \<and> maxLat eg' = f64c 46 0 \<and>
      minLon eg' = f64c 122 0 \<and> maxLon eg' = f64c 154 0 \<and>
      gridSize eg' = f64c 1 3 \<and> geometry_ok eg'"
    if l: "LoadFromFile impl eg dataPath NotExist = Inr eg'"
  proof -
    define eg1 where "eg1 = eg\<lparr>width := 32000, height := 26000, minLat := f64c 20 0,
      maxLat := f64c 46 0, minLon := f64c 122 0, maxLon := f64c 154 0, gridSize := f64c 1 3\<rparr>"
    have h: "loadHeader eg NotExist = Inr eg1" by (simp add: loadHeader_def eg1_def)
    obtain eg2 where d: "loadData impl eg1 dataPath = Inr eg2"
      and e: "eg' = eg2\<lparr>invGridSize := fdiv (f64c 1 0) (gridSize eg2)\<rparr>"
      using l h by (auto simp: LoadFromFile_def split: sum.splits)
    have f: "width eg' = 32000 \<and> height eg' = 26000 \<and>
      minLat eg' = f64c 20 0 \<and> maxLat eg' = f64c 46 0 \<and>
      minLon eg' = f64c 122 0 \<and> maxLon eg' = f64c 154 0 \<and> gridSize eg' = f64c 1 3"
      using loadData_same_geometry[OF d] by (simp add: e eg1_def)
    then show ?thesis using default_geometry_ok by (simp add: geometry_ok_fields)
  qed
  have B: "\<exists>bs. ReadFull f 48 = Inr bs \<and>
            width eg' = Width (decode_header bs) \<and> height eg' = Height (decode_header bs) \<and>
            minLat eg' = MinLat (decode_header bs) \<and> maxLat eg' = MaxLat (decode_header bs) \<and>
            minLon eg' = MinLon (decode_header bs) \<and> maxLon eg' = MaxLon (decode_header bs) \<and>
            gridSize eg' = GridSize (decode_header bs)"
    if l: "LoadFromFile impl eg dataPath (Opened f) = Inr eg'"
  proof -
    obtain eg1 where h: "loadHeader eg (Opened f) = Inr eg1"
      using l by (auto simp: LoadFromFile_def split: sum.splits)
    then obtain bs where r: "ReadFull f 48 = Inr bs"
      by (auto simp: loadHeader_def split: sum.splits)
    have g1: "width eg1 = Width (decode_header bs) \<and> height eg1 = Height (decode_header bs) \<and>
            minLat eg1 = MinLat (decode_header bs) \<and> maxLat eg1 = MaxLat (decode_header bs) \<and>
            minLon eg1 = MinLon (decode_header bs) \<and> maxLon eg1 = MaxLon (decode_header bs) \<and>
            gridSize eg1 = GridSize (decode_header bs)"
      using h r by (auto simp: loadHeader_def Let_def)
    obtain eg2 where d: "loadData impl eg1 dataPath = Inr eg2"
      and e: "eg' = eg2\<lparr>invGridSize := fdiv (f64c 1 0) (gridSize eg2)\<rparr>"
      using l h by (auto simp: LoadFromFile_def split: sum.splits)
    show ?thesis using r g1 loadData_same_geometry[OF d] by (simp add: e)
  qed
  show ?thesis using A B by blast
qed

lemma default_loaded:
  "LoadFromFile amd64 NewElevationGrid NotExist NotExist = Inr synthetic_default"
proof -
  have h: "loadHeader NewElevationGrid NotExist = Inr NewElevationGrid"
    by (simp add: loadHeader_def NewElevationGrid_def)
  have w: "width NewElevationGrid = 32000" "height NewElevationGrid = 26000"
    "gridSize NewElevationGrid = f64c 1 3"
    by (simp_all add: NewElevationGrid_def)
  have "generateTestData amd64 NewElevationGrid =
      Inr (NewElevationGrid\<lparr>grid := map (synth_cell amd64 NewElevationGrid)
             [0..width NewElevationGrid * height NewElevationGrid - 1]\<rparr>)"
    by (rule generateTestData_ok) (simp_all add: w makeslice_panics_def amd64_max_alloc)
  then have d: "loadData amd64 NewElevationGrid NotExist =
      Inr (NewElevationGrid\<lparr>grid := map (synth_cell amd64 NewElevationGrid)
             [0..32000 * 26000 - 1]\<rparr>)"
    unfolding w by (simp only: loadData_def open_result.case)
  have g: "gridSize (NewElevationGrid\<lparr>grid := xs\<rparr>) = f64c 1 3" for xs
    by (simp add: w)
  show ?thesis
    unfolding LoadFromFile_succeeds[OF h d] synthetic_default_def g by (rule refl)
qed

theorem geometry_after_load_witness:
  "LoadFromFile amd64 NewElevationGrid NotExist NotExist = Inr synthetic_default \<and>
   geometry_ok synthetic_default \<and>
   LoadFromFile amd64 NewElevationGrid NotExist (Opened zero_header) =
     Inr (zero_geometry\<lparr>invGridSize := Inf False\<rparr>) \<and>
   ReadFull zero_header 48 = Inr (replicate 48 0) \<and>
   width (zero_geometry\<lparr>invGridSize := Inf False\<rparr>) = Width (decode_header (replicate 48 0))"
  using geometry_after_load[where impl = amd64 and eg = NewElevationGrid and dataPath = NotExist
      and eg' = synthetic_default]
    geometry_after_load[where impl = amd64 and eg = NewElevationGrid and dataPath = NotExist
      and f = zero_header and eg' = "zero_geometry\<lparr>invGridSize := Inf False\<rparr>"]
  by (simp add: default_loaded zero_loaded zero_header_read zero_header_decoded)


text \<open>
  On the grid of the zero header a call inside the (one-point) bounding box reads the
  slice at index \<open>-1\<close>: the well-formedness of the grid in the claims about lookups is
  not something the loader establishes.
\<close>

lemma degenerate_grid_panics:
  "\<not> out_of_bounds (zero_geometry\<lparr>invGridSize := Inf False\<rparr>) (f64c 0 0) (f64c 0 0) \<and>
   fst (GetElevation amd64 (zero_geometry\<lparr>invGridSize := Inf False\<rparr>) (f64c 0 0) (f64c 0 0)) =
     Inl Panic"
  by (simp add: GetElevation_def out_of_bounds_def fgt_def cell_index_def cell_eval zero_geometry_def
      f64c_def rnd_eval amd64_def)


section \<open>Batches on a constructed service\<close>

text \<open>
  Claim C4, as stated, fails. The service that \<open>NewService\<close> constructs from a header of
  48 zero bytes and no data file has an empty grid of width and height 0. For a batch of
  one point, the origin, the bounds check passes (the bounding box is the origin), the
  clamped column and row are \<open>-1\<close>, and the read of the slice at index \<open>-1\<close> panics: the batch
  returns no result for its point.
\<close>

theorem batch_claim_counterexample:
  "NewService amd64 0 NotExist (Opened zero_header) = Inr zero_service \<and>
   \<not> out_of_bounds (egrid zero_service) (f64c 0 0) (f64c 0 0) \<and>
   fst (Service_GetBatchElevations amd64 zero_service origin_batch) = Inl Panic"
proof -
  have c: "NewService amd64 0 NotExist (Opened zero_header) = Inr zero_service"
    by (simp add: NewService_def zero_loaded zero_service_def)
  have "fst (GetElevation amd64 (egrid zero_service) (f64c 0 0) (f64c 0 0)) = Inl Panic"
    using degenerate_grid_panics by (simp add: zero_service_def)
  then obtain eg1 where
    "GetElevation amd64 (egrid zero_service) (f64c 0 0) (f64c 0 0) = (Inl Panic, eg1)"
    by (cases "GetElevation amd64 (egrid zero_service) (f64c 0 0) (f64c 0 0)") simp
  then have "GetBatchElevations amd64 (egrid zero_service) origin_batch = (Inl Panic, eg1)"
    by (simp add: origin_batch_def)
  then have "fst (Service_GetBatchElevations amd64 zero_service origin_batch) = Inl Panic"
    by (simp add: Service_GetBatchElevations_def Let_def)
  then show ?thesis
    using c degenerate_grid_panics by (simp add: zero_service_def)
qed

text \<open>
  Claim C4, amended. On a grid that satisfies the invariant of the data model (a positive
  width and height, a slice of width times height cells), \<open>Service.GetBatchElevations\<close> on
  a list of \<open>N\<close> points returns, without error, a list of exactly \<open>N\<close> results in the order
  of the input, each carrying the latitude and the longitude of its point unchanged and
  the elevation that \<open>GetElevation\<close> gives for that point after the calls for the points
  before it, with \<open>-9999\<close> in the place of its error; so a point that is out of bounds has
  the elevation \<open>-9999\<close> and does not end the batch. The grid of the service afterwards is
  the grid after these \<open>N\<close> calls.
\<close>

theorem batch_shape:
  assumes "grid_wf (egrid s)"
  shows "\<exists>results. fst (Service_GetBatchElevations impl s points) = Inr results \<and>
           length results = length points \<and>
           map Lat results = map Lat points \<and> map Lon results = map Lon points \<and>
           (\<forall>i<length points.
              Elevation (results ! i) =
                point_elevation impl (grid_after impl (egrid s) (take i points)) (points ! i)) \<and>
           (\<forall>i<length points.
              out_of_bounds (egrid s) (Lat (points ! i)) (Lon (points ! i)) \<longrightarrow>
                Elevation (results ! i) = f64c (- 9999) 0) \<and>
           egrid (snd (Service_GetBatchElevations impl s points)) =
             grid_after impl (egrid s) points"
proof -
  obtain vs where b: "GetBatchElevations impl (egrid s) points =
      (Inr vs, grid_after impl (egrid s) points)"
    and len: "length vs = length points"
    and each: "\<forall>i<length points.
        vs ! i = point_elevation impl (grid_after impl (egrid s) (take i points)) (points ! i)"
    using GetBatchElevations_total[OF assms, of impl points] by blast
  define results where
    "results = map2 (\<lambda>p e. \<lparr> Lat = Lat p, Lon = Lon p, Elevation = e \<rparr>) points vs"
  have r: "fst (Service_GetBatchElevations impl s points) = Inr results"
    using b by (simp add: Service_GetBatchElevations_def Let_def results_def)
  have g: "egrid (snd (Service_GetBatchElevations impl s points)) =
             grid_after impl (egrid s) points"
    using b by (simp add: Service_GetBatchElevations_def Let_def)
  have l: "length results = length points" using len by (simp add: results_def)
  have nth: "\<And>i. i < length points \<Longrightarrow>
      results ! i = \<lparr> Lat = Lat (points ! i), Lon = Lon (points ! i), Elevation = vs ! i \<rparr>"
    using len by (simp add: results_def)
  have coords: "map Lat results = map Lat points" "map Lon results = map Lon points"
    using l nth by (auto intro!: nth_equalityI)
  have elev: "\<forall>i<length points.
      Elevation (results ! i) =
        point_elevation impl (grid_after impl (egrid s) (take i points)) (points ! i)"
    using each nth by simp
  have "\<forall>i<length points.
      out_of_bounds (egrid s) (Lat (points ! i)) (Lon (points ! i)) \<longrightarrow>
        Elevation (results ! i) = f64c (- 9999) 0"
  proof (intro allI impI)
    fix i assume i: "i < length points"
      and o: "out_of_bounds (egrid s) (Lat (points ! i)) (Lon (points ! i))"
    have "out_of_bounds (grid_after impl (egrid s) (take i points))
            (Lat (points ! i)) (Lon (points ! i))"
      using o same_geometry_out_of_bounds[OF grid_after_same_geometry] by simp
    then show "Elevation (results ! i) = f64c (- 9999) 0"
      using elev i by (simp add: point_elevation_oob)
  qed
  then show ?thesis using r l coords elev g by blast
qed

theorem batch_shape_witness:
  "grid_wf (egrid demo_service) \<and>
   out_of_bounds (egrid demo_service) (f64c 3 0) (f64c 0 0) \<and>
   fst (Service_GetBatchElevations amd64 demo_service demo_points) =
     Inr [\<lparr> Lat = f64c 0 0, Lon = lon_below_one, Elevation = f64c 1 0 \<rparr>,
          \<lparr> Lat = f64c 3 0, Lon = f64c 0 0, Elevation = f64c (- 9999) 0 \<rparr>,
          \<lparr> Lat = f64c 0 0, Lon = f64c 1 0, Elevation = f64c 1 0 \<rparr>] \<and>
   egrid (snd (Service_GetBatchElevations amd64 demo_service demo_points)) = demo_grid_cached"
proof -
  have h: "grid_wf (egrid demo_service)" by (simp add: demo_service_def demo_grid_wf)
  have "fst (Service_GetBatchElevations amd64 demo_service demo_points) =
     Inr [\<lparr> Lat = f64c 0 0, Lon = lon_below_one, Elevation = f64c 1 0 \<rparr>,
          \<lparr> Lat = f64c 3 0, Lon = f64c 0 0, Elevation = f64c (- 9999) 0 \<rparr>,
          \<lparr> Lat = f64c 0 0, Lon = f64c 1 0, Elevation = f64c 1 0 \<rparr>]"
    by (simp add: Service_GetBatchElevations_def demo_service_def demo_batch)
       (simp add: demo_points_def)
  moreover have "egrid (snd (Service_GetBatchElevations amd64 demo_service demo_points)) =
      demo_grid_cached"
    by (simp add: Service_GetBatchElevations_def demo_service_def demo_batch)
  ultimately show ?thesis
    using h batch_shape[OF h, of amd64 demo_points] demo_oob by (simp add: demo_service_def)
qed

end
